theory Spec2Isabelle
  imports Main "HOL-Library.Word" "HOL-Library.Multiset"
begin

section \<open>JavaScript values seen by the route handlers\<close>

text \<open>
  A JavaScript string is a sequence of UTF-16 code units. The documented request
  bodies hold Japanese titles, so code units are kept at their full 16 bits.
\<close>

type_synonym jsstring = "16 word list"

definition js :: "string \<Rightarrow> jsstring" where
  "js s = map of_char s"

text \<open>
  A Number. \<open>Num n\<close> is a finite double whose value is the integer \<open>n\<close>;
  \<open>Other\<close> is any other Number that is not NaN (a fraction or an infinity). Zero is
  always \<open>Num 0\<close>.
\<close>

datatype jsnumber = NaN | Num int | Other

text \<open>
  The Number value of a mathematical integer, as \<open>parseInt\<close> returns it: the nearest
  double, a tie going to the even significand of 53 bits, and an infinity from
  \<open>2 ^ 1024\<close> on. (The language lets an implementation zero the decimal digits after
  the twentieth before rounding; V8, which runs the handlers, rounds the digits as
  written, and so does this model.)
\<close>

fun bitLength :: "nat \<Rightarrow> nat" where
  "bitLength m = (if m = 0 then 0 else Suc (bitLength (m div 2)))"

declare bitLength.simps [simp del]

definition roundTiesToEven :: "nat \<Rightarrow> nat" where
  "roundTiesToEven m =
     (let L = bitLength m in
      if L \<le> 53 then m
      else (let e = L - 53; q = m div 2 ^ e; r = m mod 2 ^ e
            in (if 2 ^ e < 2 * r \<or> (2 * r = 2 ^ e \<and> odd q) then q + 1 else q) * 2 ^ e))"

definition toNumber :: "int \<Rightarrow> jsnumber" where
  "toNumber n =
     (let v = roundTiesToEven (nat \<bar>n\<bar>)
      in if 2 ^ 1024 \<le> v then Other else Num (sgn n * int v))"

definition isNaN :: "jsnumber \<Rightarrow> bool" where
  "isNaN x \<longleftrightarrow> x = NaN"

datatype jsvalue =
    JUndefined
  | JNull
  | JBool bool
  | JNumber jsnumber
  | JString jsstring
  | JArray "jsvalue list"
  | JObject "(jsstring \<times> jsvalue) list"

datatype exn = SyntaxError | TypeError | InvalidArgument | RecordNotFound | StoreUnavailable

text \<open>The operand of \<open>!\<close> and \<open>||\<close>: ToBoolean.\<close>

fun truthy :: "jsvalue \<Rightarrow> bool" where
  "truthy JUndefined = False"
| "truthy JNull = False"
| "truthy (JBool b) = b"
| "truthy (JNumber n) = (n \<noteq> NaN \<and> n \<noteq> Num 0)"
| "truthy (JString s) = (s \<noteq> [])"
| "truthy (JArray xs) = True"
| "truthy (JObject ps) = True"

fun typeof :: "jsvalue \<Rightarrow> string" where
  "typeof JUndefined = ''undefined''"
| "typeof JNull = ''object''"
| "typeof (JBool b) = ''boolean''"
| "typeof (JNumber n) = ''number''"
| "typeof (JString s) = ''string''"
| "typeof (JArray xs) = ''object''"
| "typeof (JObject ps) = ''object''"

text \<open>
  The destructuring \<open>const { title } = body\<close> and \<open>const { completed } = body\<close>:
  it throws a TypeError on \<open>null\<close> and \<open>undefined\<close>, reads the own property of an
  object, and finds nothing on a primitive or an array (no prototype carries a
  property of either name).
\<close>

fun getProperty :: "jsvalue \<Rightarrow> jsstring \<Rightarrow> exn + jsvalue" where
  "getProperty JUndefined k = Inl TypeError"
| "getProperty JNull k = Inl TypeError"
| "getProperty (JObject ps) k = Inr (case map_of ps k of Some v \<Rightarrow> v | None \<Rightarrow> JUndefined)"
| "getProperty v k = Inr JUndefined"

subsection \<open>String.prototype.trim and parseInt\<close>

text \<open>White space and line terminators, as \<open>trim\<close> and \<open>parseInt\<close> strip them.\<close>

definition isStrWhiteSpaceChar :: "16 word \<Rightarrow> bool" where
  "isStrWhiteSpaceChar c \<longleftrightarrow>
     c \<in> {0x9, 0xA, 0xB, 0xC, 0xD, 0x20, 0xA0, 0x1680, 0x2028, 0x2029, 0x202F, 0x205F,
          0x3000, 0xFEFF}
     \<or> (0x2000 \<le> c \<and> c \<le> 0x200A)"

definition trim :: "jsstring \<Rightarrow> jsstring" where
  "trim s = rev (dropWhile isStrWhiteSpaceChar (rev (dropWhile isStrWhiteSpaceChar s)))"

text \<open>The value of a code unit as a digit: \<open>0-9\<close>, then \<open>a-z\<close> and \<open>A-Z\<close> from ten.\<close>

definition digitValue :: "16 word \<Rightarrow> nat option" where
  "digitValue c =
     (if 0x30 \<le> c \<and> c \<le> 0x39 then Some (unat c - 48)
      else if 0x61 \<le> c \<and> c \<le> 0x7A then Some (unat c - 87)
      else if 0x41 \<le> c \<and> c \<le> 0x5A then Some (unat c - 55)
      else None)"

definition isRadixDigit :: "nat \<Rightarrow> 16 word \<Rightarrow> bool" where
  "isRadixDigit R c = (case digitValue c of Some d \<Rightarrow> d < R | None \<Rightarrow> False)"

fun mathInt :: "nat \<Rightarrow> nat \<Rightarrow> jsstring \<Rightarrow> nat" where
  "mathInt R acc [] = acc"
| "mathInt R acc (c # cs) =
     mathInt R (acc * R + (case digitValue c of Some d \<Rightarrow> d | None \<Rightarrow> 0)) cs"

text \<open>
  \<open>parseInt(string)\<close> with no radix: leading white space and one sign are skipped,
  a \<open>0x\<close> or \<open>0X\<close> prefix selects base sixteen, the longest run of digits is read
  and everything after it is ignored; no digit at all gives NaN.
\<close>

definition parseInt :: "jsstring \<Rightarrow> jsnumber" where
  "parseInt string =
     (let S = dropWhile isStrWhiteSpaceChar string;
          sign = (if S \<noteq> [] \<and> hd S = 0x2D then - 1 else 1);
          S1 = (if S \<noteq> [] \<and> (hd S = 0x2B \<or> hd S = 0x2D) then tl S else S);
          stripPrefix = (take 2 S1 = [0x30, 0x78] \<or> take 2 S1 = [0x30, 0x58]);
          R = (if stripPrefix then 16 else 10);
          S2 = (if stripPrefix then drop 2 S1 else S1);
          Z = takeWhile (isRadixDigit R) S2
      in if Z = [] then NaN else toNumber (sign * int (mathInt R 0 Z)))"

section \<open>The Todo table behind the Prisma client\<close>

record todo =
  todo_id :: int
  title :: jsstring
  completed :: bool
  createdAt :: nat
  updatedAt :: nat

text \<open>
  The table, the next auto-increment value, and a count of the round trips issued to
  the store (a ghost field: it records that a call was made, also a failed one).
\<close>

record store =
  rows :: "todo list"
  nextId :: int
  roundTrips :: nat

text \<open>
  What one request meets outside the program: the store's clock reading, and whether
  the store round trip of this request goes through.
\<close>

record env =
  now :: nat
  storeOk :: bool

definition roundTrip :: "store \<Rightarrow> store" where
  "roundTrip s = s\<lparr>roundTrips := Suc (roundTrips s)\<rparr>"

text \<open>
  Modelled from the spec: the Prisma schema of the Todo model (prisma/schema.prisma)
  and the client generated from it are not among the sources. The four operations
  below follow the spec's data model and the handlers' comments: \<open>id\<close> is the
  auto-increment primary key, \<open>completed\<close> defaults to false, \<open>createdAt\<close> is the
  clock at creation, \<open>updatedAt\<close> is refreshed by every update, \<open>update\<close> and
  \<open>delete\<close> throw when no row has the id, and a failed call changes no row.
\<close>

datatype sortOrder = Asc | Desc

text \<open>
  Modelled from the spec: \<open>orderBy: { createdAt: ... }\<close>. Rows with equal
  \<open>createdAt\<close> come back in their table order; the store promises no order among
  them and no theorem below depends on this choice.
\<close>

definition orderBy_createdAt :: "sortOrder \<Rightarrow> todo list \<Rightarrow> todo list" where
  "orderBy_createdAt ord ts =
     (case ord of
        Asc \<Rightarrow> sort_key createdAt ts
      | Desc \<Rightarrow> sort_key (\<lambda>t. - int (createdAt t)) ts)"

text \<open>Modelled from the spec: \<open>prisma.todo.findMany({ orderBy })\<close>.\<close>

definition todo_findMany :: "env \<Rightarrow> sortOrder \<Rightarrow> store \<Rightarrow> (exn + todo list) \<times> store" where
  "todo_findMany e orderBy s =
     (if storeOk e then (Inr (orderBy_createdAt orderBy (rows s)), roundTrip s)
      else (Inl StoreUnavailable, roundTrip s))"

text \<open>Modelled from the spec: \<open>prisma.todo.create({ data: { title } })\<close>.\<close>

definition todo_create :: "env \<Rightarrow> jsstring \<Rightarrow> store \<Rightarrow> (exn + todo) \<times> store" where
  "todo_create e t s =
     (if storeOk e then
        (let r = \<lparr>todo_id = nextId s, title = t, completed = False,
                  createdAt = now e, updatedAt = now e\<rparr>
         in (Inr r, roundTrip (s\<lparr>rows := rows s @ [r], nextId := nextId s + 1\<rparr>)))
      else (Inl StoreUnavailable, roundTrip s))"

text \<open>Modelled from the spec: \<open>prisma.todo.update({ where: { id }, data: { completed } })\<close>.\<close>

definition todo_update :: "env \<Rightarrow> jsnumber \<Rightarrow> bool \<Rightarrow> store \<Rightarrow> (exn + todo) \<times> store" where
  "todo_update e whereId c s =
     (if \<not> storeOk e then (Inl StoreUnavailable, roundTrip s)
      else case whereId of
        Num k \<Rightarrow>
          (case find (\<lambda>r. todo_id r = k) (rows s) of
             None \<Rightarrow> (Inl RecordNotFound, roundTrip s)
           | Some r \<Rightarrow>
               (Inr (r\<lparr>completed := c, updatedAt := now e\<rparr>),
                roundTrip (s\<lparr>rows :=
                  map (\<lambda>x. if todo_id x = k then x\<lparr>completed := c, updatedAt := now e\<rparr> else x)
                    (rows s)\<rparr>)))
      | _ \<Rightarrow> (Inl InvalidArgument, roundTrip s))"

text \<open>Modelled from the spec: \<open>prisma.todo.delete({ where: { id } })\<close>.\<close>

definition todo_delete :: "env \<Rightarrow> jsnumber \<Rightarrow> store \<Rightarrow> (exn + todo) \<times> store" where
  "todo_delete e whereId s =
     (if \<not> storeOk e then (Inl StoreUnavailable, roundTrip s)
      else case whereId of
        Num k \<Rightarrow>
          (case find (\<lambda>r. todo_id r = k) (rows s) of
             None \<Rightarrow> (Inl RecordNotFound, roundTrip s)
           | Some r \<Rightarrow>
               (Inr r, roundTrip (s\<lparr>rows := filter (\<lambda>x. todo_id x \<noteq> k) (rows s)\<rparr>)))
      | _ \<Rightarrow> (Inl InvalidArgument, roundTrip s))"

section \<open>The route handlers\<close>

datatype payload =
    JsonTodo todo
  | JsonTodos "todo list"
  | JsonError string
  | JsonSuccess bool

record response =
  status :: nat
  payload :: payload

definition NextResponse_json :: "payload \<Rightarrow> nat \<Rightarrow> response" where
  "NextResponse_json p st = \<lparr>status = st, payload = p\<rparr>"

text \<open>\<open>request.json()\<close>: the parsed body, or a SyntaxError when it is not JSON.\<close>

datatype body = Malformed | Json jsvalue

fun request_json :: "body \<Rightarrow> exn + jsvalue" where
  "request_json Malformed = Inl SyntaxError"
| "request_json (Json v) = Inr v"

subsection \<open>GET and POST /api/todos\<close>

definition GET_try :: "env \<Rightarrow> store \<Rightarrow> (exn + response) \<times> store" where
  "GET_try e s =
     (case todo_findMany e Desc s of
        (Inl err, s') \<Rightarrow> (Inl err, s')
      | (Inr todos, s') \<Rightarrow> (Inr (NextResponse_json (JsonTodos todos) 200), s'))"

definition GET :: "env \<Rightarrow> store \<Rightarrow> response \<times> store" where
  "GET e s =
     (case GET_try e s of
        (Inr r, s') \<Rightarrow> (r, s')
      | (Inl err, s') \<Rightarrow> (NextResponse_json (JsonError ''Failed to fetch todos'') 500, s'))"

definition POST_try :: "env \<Rightarrow> body \<Rightarrow> store \<Rightarrow> (exn + response) \<times> store" where
  "POST_try e request s =
     (case request_json request of
        Inl err \<Rightarrow> (Inl err, s)
      | Inr body \<Rightarrow>
          (case getProperty body (js ''title'') of
             Inl err \<Rightarrow> (Inl err, s)
           | Inr titleV \<Rightarrow>
               if \<not> truthy titleV \<or> typeof titleV \<noteq> ''string''
               then (Inr (NextResponse_json (JsonError ''Title is required'') 400), s)
               else (case titleV of
                       JString t \<Rightarrow>
                         (case todo_create e (trim t) s of
                            (Inl err, s') \<Rightarrow> (Inl err, s')
                          | (Inr todo, s') \<Rightarrow> (Inr (NextResponse_json (JsonTodo todo) 201), s'))
                     | _ \<Rightarrow> (Inl TypeError, s))))"

definition POST :: "env \<Rightarrow> body \<Rightarrow> store \<Rightarrow> response \<times> store" where
  "POST e request s =
     (case POST_try e request s of
        (Inr r, s') \<Rightarrow> (r, s')
      | (Inl err, s') \<Rightarrow> (NextResponse_json (JsonError ''Failed to create todo'') 500, s'))"

subsection \<open>PATCH and DELETE /api/todos/[id]\<close>

definition PATCH_try :: "env \<Rightarrow> jsstring \<Rightarrow> body \<Rightarrow> store \<Rightarrow> (exn + response) \<times> store" where
  "PATCH_try e idStr request s =
     (let todoId = parseInt idStr in
      if isNaN todoId
      then (Inr (NextResponse_json (JsonError ''Invalid todo ID'') 400), s)
      else (case request_json request of
              Inl err \<Rightarrow> (Inl err, s)
            | Inr body \<Rightarrow>
                (case getProperty body (js ''completed'') of
                   Inl err \<Rightarrow> (Inl err, s)
                 | Inr completedV \<Rightarrow>
                     if typeof completedV \<noteq> ''boolean''
                     then (Inr (NextResponse_json (JsonError ''Completed must be a boolean'') 400), s)
                     else (case completedV of
                             JBool c \<Rightarrow>
                               (case todo_update e todoId c s of
                                  (Inl err, s') \<Rightarrow> (Inl err, s')
                                | (Inr todo, s') \<Rightarrow>
                                    (Inr (NextResponse_json (JsonTodo todo) 200), s'))
                           | _ \<Rightarrow> (Inl InvalidArgument, s)))))"

definition PATCH :: "env \<Rightarrow> jsstring \<Rightarrow> body \<Rightarrow> store \<Rightarrow> response \<times> store" where
  "PATCH e idStr request s =
     (case PATCH_try e idStr request s of
        (Inr r, s') \<Rightarrow> (r, s')
      | (Inl err, s') \<Rightarrow> (NextResponse_json (JsonError ''Failed to update todo'') 500, s'))"

definition DELETE_try :: "env \<Rightarrow> jsstring \<Rightarrow> store \<Rightarrow> (exn + response) \<times> store" where
  "DELETE_try e idStr s =
     (let todoId = parseInt idStr in
      if isNaN todoId
      then (Inr (NextResponse_json (JsonError ''Invalid todo ID'') 400), s)
      else (case todo_delete e todoId s of
              (Inl err, s') \<Rightarrow> (Inl err, s')
            | (Inr todo, s') \<Rightarrow> (Inr (NextResponse_json (JsonSuccess True) 200), s')))"

definition DELETE :: "env \<Rightarrow> jsstring \<Rightarrow> store \<Rightarrow> response \<times> store" where
  "DELETE e idStr s =
     (case DELETE_try e idStr s of
        (Inr r, s') \<Rightarrow> (r, s')
      | (Inl err, s') \<Rightarrow> (NextResponse_json (JsonError ''Failed to delete todo'') 500, s'))"

subsection \<open>Requests in sequence\<close>

text \<open>
  Next.js calls the exported function named after the HTTP method; a history of
  requests is run one after the other, each with what it meets outside the program.
\<close>

datatype request =
    List
  | Create body
  | SetCompleted jsstring body
  | Delete jsstring

fun handle :: "env \<Rightarrow> request \<Rightarrow> store \<Rightarrow> response \<times> store" where
  "handle e List s = GET e s"
| "handle e (Create b) s = POST e b s"
| "handle e (SetCompleted idStr b) s = PATCH e idStr b s"
| "handle e (Delete idStr) s = DELETE e idStr s"

fun run :: "(env \<times> request) list \<Rightarrow> store \<Rightarrow> store" where
  "run [] s = s"
| "run ((e, r) # rest) s = run rest (snd (handle e r s))"

text \<open>The auto-increment counter is ahead of every id in the table.\<close>

definition counterAhead :: "store \<Rightarrow> bool" where
  "counterAhead s \<longleftrightarrow> list_all (\<lambda>r. todo_id r < nextId s) (rows s)"

subsection \<open>Response shapes\<close>




subsection \<open>The leading integer prefix of an id, in the claim's words\<close>

definition isDecimalDigit :: "16 word \<Rightarrow> bool" where
  "isDecimalDigit c \<longleftrightarrow> 0x30 \<le> c \<and> c \<le> 0x39"

definition decimalValue :: "jsstring \<Rightarrow> nat" where
  "decimalValue ds = foldl (\<lambda>a c. a * 10 + (unat c - 48)) 0 ds"

definition leadingIntegerPrefix :: "jsstring \<Rightarrow> int" where
  "leadingIntegerPrefix s = int (decimalValue (takeWhile isDecimalDigit s))"

definition hasHexPrefix :: "jsstring \<Rightarrow> bool" where
  "hasHexPrefix s \<longleftrightarrow> take 2 s = [0x30, 0x78] \<or> take 2 s = [0x30, 0x58]"

text \<open>The base sixteen reading of what follows \<open>0x\<close> or \<open>0X\<close>, in the claim's words.\<close>

definition isHexDigit :: "16 word \<Rightarrow> bool" where
  "isHexDigit c \<longleftrightarrow>
     (0x30 \<le> c \<and> c \<le> 0x39) \<or> (0x61 \<le> c \<and> c \<le> 0x66) \<or> (0x41 \<le> c \<and> c \<le> 0x46)"

definition hexDigitValue :: "16 word \<Rightarrow> nat" where
  "hexDigitValue c =
     (if c \<le> 0x39 then unat c - 48 else if 0x61 \<le> c then unat c - 87 else unat c - 55)"

definition hexValue :: "jsstring \<Rightarrow> nat" where
  "hexValue ds = foldl (\<lambda>a c. a * 16 + hexDigitValue c) 0 ds"

definition hexDigitsAfterPrefix :: "jsstring \<Rightarrow> jsstring" where
  "hexDigitsAfterPrefix s = takeWhile isHexDigit (drop 2 s)"

section \<open>The Prisma client handle (lib/prisma.ts)\<close>

text \<open>
  The process as the module sees it: \<open>globalThis.prisma\<close>, and how many clients
  \<open>new PrismaClient()\<close> has constructed so far. A client is identified by its
  construction number.
\<close>

record process =
  globalForPrisma_prisma :: "nat option"
  constructed :: nat

definition new_PrismaClient :: "process \<Rightarrow> nat \<times> process" where
  "new_PrismaClient p = (constructed p, p\<lparr>constructed := Suc (constructed p)\<rparr>)"

text \<open>
  One evaluation of the module body; the result is the exported \<open>prisma\<close>.
  \<open>NODE_ENV\<close> is \<open>process.env.NODE_ENV\<close>, \<open>None\<close> when it is not set.
\<close>

definition prisma_module :: "string option \<Rightarrow> process \<Rightarrow> nat \<times> process" where
  "prisma_module NODE_ENV p =
     (let (prisma, p1) = (case globalForPrisma_prisma p of
                            Some c \<Rightarrow> (c, p)
                          | None \<Rightarrow> new_PrismaClient p)
      in if NODE_ENV \<noteq> Some ''production''
         then (prisma, p1\<lparr>globalForPrisma_prisma := Some prisma\<rparr>)
         else (prisma, p1))"

text \<open>
  The module body is evaluated at the first import and once more after each reload;
  between two evaluations every importer reads the export of the latest one.
  \<open>evaluations env n p\<close> lists the exports of \<open>n\<close> evaluations in a row.
\<close>

fun evaluations :: "string option \<Rightarrow> nat \<Rightarrow> process \<Rightarrow> nat list \<times> process" where
  "evaluations NODE_ENV 0 p = ([], p)"
| "evaluations NODE_ENV (Suc n) p =
     (let (h, p1) = prisma_module NODE_ENV p;
          (hs, p2) = evaluations NODE_ENV n p1
      in (h # hs, p2))"

section \<open>Basic facts\<close>

lemmas handler_defs =
  GET_def GET_try_def POST_def POST_try_def PATCH_def PATCH_try_def DELETE_def DELETE_try_def
  NextResponse_json_def

lemmas store_defs = todo_findMany_def todo_create_def todo_update_def todo_delete_def


lemma all_dropWhile: "(\<forall>x\<in>set (dropWhile P xs). P x) \<longleftrightarrow> (\<forall>x\<in>set xs. P x)"
  by (induction xs) auto

lemma trim_empty_iff: "trim t = [] \<longleftrightarrow> list_all isStrWhiteSpaceChar t"
  by (simp add: trim_def dropWhile_eq_Nil_conv list_all_iff all_dropWhile)

lemma bitLength_le: "m < 2 ^ k \<Longrightarrow> bitLength m \<le> k"
proof (induction k arbitrary: m)
  case 0
  then show ?case by (simp add: bitLength.simps)
next
  case (Suc k)
  show ?case
  proof (cases "m = 0")
    case True
    then show ?thesis by (simp add: bitLength.simps)
  next
    case False
    from Suc.prems have "m div 2 < 2 ^ k" by simp
    from Suc.IH [OF this] False show ?thesis by (subst bitLength.simps) simp
  qed
qed

lemma bitLength_pow2: "bitLength (2 ^ k) = Suc k"
proof (induction k)
  case 0
  show ?case by (simp add: bitLength.simps [of "Suc 0"] bitLength.simps [of 0])
next
  case (Suc k)
  have "bitLength (2 ^ Suc k) = Suc (bitLength (2 ^ Suc k div 2))"
    by (subst bitLength.simps) simp
  with Suc show ?case by simp
qed

lemma round_small: "m \<le> 2 ^ 53 \<Longrightarrow> roundTiesToEven m = m"
proof (cases "m = 9007199254740992")
  case True
  have b: "bitLength 9007199254740992 = 54" using bitLength_pow2 [of 53] by simp
  have "roundTiesToEven 9007199254740992 = 9007199254740992"
    unfolding roundTiesToEven_def Let_def b by simp
  with True show ?thesis by simp
next
  case False
  assume "m \<le> 2 ^ 53"
  with False have "m < 2 ^ 53" by simp
  then have "bitLength m \<le> 53" by (rule bitLength_le)
  then show ?thesis unfolding roundTiesToEven_def Let_def by simp
qed

lemma toNumber_small: "\<bar>n\<bar> \<le> 2 ^ 53 \<Longrightarrow> toNumber n = Num n"
proof -
  assume a: "\<bar>n\<bar> \<le> 2 ^ 53"
  then have "nat \<bar>n\<bar> \<le> 2 ^ 53" by simp
  then have r: "roundTiesToEven (nat \<bar>n\<bar>) = nat \<bar>n\<bar>" by (rule round_small)
  have "(2::nat) ^ 53 < 2 ^ 1024" by (rule power_strict_increasing) simp_all
  moreover from a have "nat \<bar>n\<bar> \<le> 2 ^ 53" by simp
  ultimately have lt: "\<not> 2 ^ 1024 \<le> nat \<bar>n\<bar>" by (simp only: not_le le_less_trans)
  have sg: "sgn n * int (nat \<bar>n\<bar>) = n" by (simp add: mult_sgn_abs)
  show ?thesis unfolding toNumber_def Let_def r using lt sg by (simp only: if_False)
qed

lemma toNumber_not_NaN: "toNumber n \<noteq> NaN"
  by (simp add: toNumber_def Let_def)

lemma parseInt_abc: "parseInt (js ''abc'') = NaN"
  by (simp add: parseInt_def js_def isStrWhiteSpaceChar_def isRadixDigit_def digitValue_def)

lemma parseInt_1: "parseInt (js ''1'') = Num 1"
  by (simp add: parseInt_def js_def isStrWhiteSpaceChar_def isRadixDigit_def digitValue_def toNumber_small)

lemma orderBy_mset: "mset (orderBy_createdAt Desc ts) = mset ts"
  by (simp add: orderBy_createdAt_def)

lemma orderBy_set: "set (orderBy_createdAt Desc ts) = set ts"
  by (simp add: orderBy_createdAt_def)

lemma orderBy_sorted:
  "sorted_wrt (\<lambda>a b. createdAt b \<le> createdAt a) (orderBy_createdAt Desc ts)"
proof -
  have "sorted (map (\<lambda>t. - int (createdAt t)) (orderBy_createdAt Desc ts))"
    by (simp add: orderBy_createdAt_def)
  then show ?thesis by (simp add: sorted_wrt_map)
qed

lemma newer_comes_first:
  assumes srt: "sorted_wrt (\<lambda>a b. createdAt b \<le> createdAt a) ts"
    and x: "x \<in> set ts" and y: "y \<in> set ts" and lt: "createdAt x < createdAt y"
  shows "\<exists>i j. i < j \<and> j < length ts \<and> ts ! i = y \<and> ts ! j = x"
proof -
  from x obtain j where j: "j < length ts" "ts ! j = x" by (auto simp: in_set_conv_nth)
  from y obtain i where i: "i < length ts" "ts ! i = y" by (auto simp: in_set_conv_nth)
  have "i < j"
  proof (rule ccontr)
    assume "\<not> i < j"
    then have "j < i \<or> j = i" by arith
    then show False
    proof
      assume "j < i"
      from srt have "\<forall>a b. a < b \<longrightarrow> b < length ts \<longrightarrow> createdAt (ts ! b) \<le> createdAt (ts ! a)"
        by (simp add: sorted_wrt_iff_nth_less)
      with \<open>j < i\<close> i(1) have "createdAt (ts ! i) \<le> createdAt (ts ! j)"
        by blast
      with i j lt show False by simp
    next
      assume "j = i"
      with i j lt show False by simp
    qed
  qed
  with i j show ?thesis by blast
qed

lemma GET_ok:
  "storeOk e \<Longrightarrow> GET e s = (NextResponse_json (JsonTodos (orderBy_createdAt Desc (rows s))) 200, roundTrip s)"
  by (simp add: GET_def GET_try_def todo_findMany_def)

lemma GET_fail:
  "\<not> storeOk e \<Longrightarrow> GET e s = (NextResponse_json (JsonError ''Failed to fetch todos'') 500, roundTrip s)"
  by (simp add: GET_def GET_try_def todo_findMany_def)

lemma POST_ok:
  "getProperty b (js ''title'') = Inr (JString t) \<Longrightarrow> t \<noteq> [] \<Longrightarrow> storeOk e \<Longrightarrow>
   POST e (Json b) s =
     (NextResponse_json (JsonTodo \<lparr>todo_id = nextId s, title = trim t, completed = False,
                           createdAt = now e, updatedAt = now e\<rparr>) 201,
      roundTrip (s\<lparr>rows := rows s @ [\<lparr>todo_id = nextId s, title = trim t, completed = False,
                           createdAt = now e, updatedAt = now e\<rparr>], nextId := nextId s + 1\<rparr>))"
  by (simp add: handler_defs store_defs Let_def)

lemma parseInt_2: "parseInt (js ''2'') = Num 2"
  by (simp add: parseInt_def js_def isStrWhiteSpaceChar_def isRadixDigit_def digitValue_def toNumber_small)

lemma find_by_id:
  "distinct (map todo_id xs) \<Longrightarrow> i < length xs \<Longrightarrow> todo_id (xs ! i) = k \<Longrightarrow>
   find (\<lambda>r. todo_id r = k) xs = Some (xs ! i)"
proof (induction xs arbitrary: i)
  case Nil
  then show ?case by simp
next
  case (Cons x xs)
  show ?case
  proof (cases i)
    case 0
    with Cons.prems show ?thesis by simp
  next
    case (Suc j)
    with Cons.prems have j: "j < length xs" "todo_id (xs ! j) = k" by simp_all
    from Cons.prems have "todo_id x \<notin> todo_id ` set xs" by simp
    moreover from j have "k \<in> todo_id ` set xs" by (metis imageI nth_mem)
    ultimately have "todo_id x \<noteq> k" by blast
    with Cons.IH [of j] Cons.prems j Suc show ?thesis by simp
  qed
qed

lemma map_update_by_id:
  "distinct (map todo_id xs) \<Longrightarrow> i < length xs \<Longrightarrow> todo_id (xs ! i) = k \<Longrightarrow>
   map (\<lambda>x. if todo_id x = k then f x else x) xs = xs[i := f (xs ! i)]"
proof (induction xs arbitrary: i)
  case Nil
  then show ?case by simp
next
  case (Cons x xs)
  show ?case
  proof (cases i)
    case 0
    with Cons.prems have "\<forall>y\<in>set xs. todo_id y \<noteq> k" by (auto simp: image_iff)
    then have "map (\<lambda>x. if todo_id x = k then f x else x) xs = xs"
      by (simp add: map_idI)
    with 0 Cons.prems show ?thesis by simp
  next
    case (Suc j)
    with Cons.prems have j: "j < length xs" "todo_id (xs ! j) = k" by simp_all
    from Cons.prems have "todo_id x \<notin> todo_id ` set xs" by simp
    moreover from j have "k \<in> todo_id ` set xs" by (metis imageI nth_mem)
    ultimately have "todo_id x \<noteq> k" by blast
    with Cons.IH [of j] Cons.prems j Suc show ?thesis by simp
  qed
qed

lemma PATCH_ok:
  assumes "distinct (map todo_id (rows s))" "storeOk e" "parseInt idStr = Num k"
    "request_json request = Inr b" "getProperty b (js ''completed'') = Inr (JBool c)"
    "i < length (rows s)" "todo_id (rows s ! i) = k"
  shows "PATCH e idStr request s =
     (NextResponse_json (JsonTodo ((rows s ! i)\<lparr>completed := c, updatedAt := now e\<rparr>)) 200,
      roundTrip (s\<lparr>rows := (rows s)[i := (rows s ! i)\<lparr>completed := c, updatedAt := now e\<rparr>]\<rparr>))"
proof -
  have f: "find (\<lambda>r. todo_id r = k) (rows s) = Some (rows s ! i)"
    using assms by (simp add: find_by_id)
  have m: "map (\<lambda>x. if todo_id x = k then x\<lparr>completed := c, updatedAt := now e\<rparr> else x) (rows s)
           = (rows s)[i := (rows s ! i)\<lparr>completed := c, updatedAt := now e\<rparr>]"
    using assms by (simp add: map_update_by_id)
  show ?thesis
    using assms f m by (simp add: PATCH_def PATCH_try_def todo_update_def Let_def isNaN_def)
qed

lemma rows_GET: "rows (snd (GET e s)) = rows s"
  by (simp add: GET_def GET_try_def todo_findMany_def roundTrip_def)

lemma rows_DELETE:
  "rows (snd (DELETE e idStr s)) = rows s
   \<or> (\<exists>k. rows (snd (DELETE e idStr s)) = filter (\<lambda>x. todo_id x \<noteq> k) (rows s))"
  by (auto simp: DELETE_def DELETE_try_def todo_delete_def roundTrip_def Let_def
      split: jsnumber.splits option.splits)

lemma rows_POST:
  "rows (snd (POST e request s)) = rows s
   \<or> (\<exists>r. rows (snd (POST e request s)) = rows s @ [r] \<and> \<not> completed r \<and> todo_id r = nextId s)"
  by (auto simp: POST_def POST_try_def todo_create_def roundTrip_def Let_def
      split: sum.splits jsvalue.splits)

lemma nextId_GET: "nextId (snd (GET e s)) = nextId s"
  by (simp add: GET_def GET_try_def todo_findMany_def roundTrip_def)

lemma nextId_DELETE: "nextId (snd (DELETE e idStr s)) = nextId s"
  by (auto simp: DELETE_def DELETE_try_def todo_delete_def roundTrip_def Let_def
      split: jsnumber.splits option.splits)

lemma nextId_POST:
  "(rows (snd (POST e request s)) = rows s \<and> nextId (snd (POST e request s)) = nextId s)
   \<or> (\<exists>r. rows (snd (POST e request s)) = rows s @ [r] \<and> todo_id r = nextId s
          \<and> nextId (snd (POST e request s)) = nextId s + 1)"
  by (auto simp: POST_def POST_try_def todo_create_def roundTrip_def Let_def
      split: sum.splits jsvalue.splits)

lemma ids_PATCH:
  "map todo_id (rows (snd (PATCH e idStr request s))) = map todo_id (rows s)
   \<and> nextId (snd (PATCH e idStr request s)) = nextId s"
  by (auto simp: PATCH_def PATCH_try_def todo_update_def roundTrip_def Let_def comp_def
      split: sum.splits jsvalue.splits jsnumber.splits option.splits)

lemma handle_keeps_gone:
  assumes "k < nextId s" "k \<notin> todo_id ` set (rows s)"
  shows "k < nextId (snd (handle e r s)) \<and> k \<notin> todo_id ` set (rows (snd (handle e r s)))"
proof (cases r)
  case List
  with assms show ?thesis by (simp add: rows_GET nextId_GET)
next
  case (Create b)
  with assms nextId_POST [of e b s] show ?thesis by auto
next
  case (SetCompleted idStr b)
  have "todo_id ` set (rows (snd (PATCH e idStr b s))) = set (map todo_id (rows (snd (PATCH e idStr b s))))"
    by simp
  also have "\<dots> = todo_id ` set (rows s)" by (simp only: ids_PATCH) simp
  finally show ?thesis using assms SetCompleted by (simp add: ids_PATCH)
next
  case (Delete idStr)
  with assms rows_DELETE [of e idStr s] show ?thesis by (auto simp: nextId_DELETE)
qed

lemma run_keeps_gone:
  "k < nextId s \<Longrightarrow> k \<notin> todo_id ` set (rows s) \<Longrightarrow>
   k < nextId (run later s) \<and> k \<notin> todo_id ` set (rows (run later s))"
proof (induction later arbitrary: s)
  case Nil
  then show ?case by simp
next
  case (Cons a later)
  obtain e r where a: "a = (e, r)" by (cases a)
  from handle_keeps_gone [OF Cons.prems, of e r] Cons.IH [of "snd (handle e r s)"] a
  show ?case by simp
qed

lemma find_None_id: "k \<notin> todo_id ` set xs \<Longrightarrow> find (\<lambda>r. todo_id r = k) xs = None"
  by (auto simp: find_None_iff)

lemma find_Some_id: "k \<in> todo_id ` set xs \<Longrightarrow> \<exists>r. find (\<lambda>r. todo_id r = k) xs = Some r"
  by (cases "find (\<lambda>r. todo_id r = k) xs") (auto simp: find_None_iff)

lemma PATCH_gone:
  "parseInt idStr = Num k \<Longrightarrow> k \<notin> todo_id ` set (rows s) \<Longrightarrow>
   PATCH e idStr (Json (JObject [(js ''completed'', JBool c)])) s
     = (NextResponse_json (JsonError ''Failed to update todo'') 500, roundTrip s)"
  by (simp add: PATCH_def PATCH_try_def todo_update_def Let_def isNaN_def find_None_id)

lemma DELETE_ok:
  "storeOk e \<Longrightarrow> parseInt idStr = Num k \<Longrightarrow> k \<in> todo_id ` set (rows s) \<Longrightarrow>
   DELETE e idStr s = (NextResponse_json (JsonSuccess True) 200,
                       roundTrip (s\<lparr>rows := filter (\<lambda>x. todo_id x \<noteq> k) (rows s)\<rparr>))"
  using find_Some_id [of k "rows s"]
  by (auto simp: DELETE_def DELETE_try_def todo_delete_def Let_def isNaN_def)

lemma GET_lists_rows:
  "payload (fst (GET e s)) = JsonTodos ts \<Longrightarrow> set ts = set (rows s)"
  by (cases "storeOk e") (auto simp: GET_ok GET_fail NextResponse_json_def orderBy_set)

text \<open>Both store invariants hold of every store reached from one where they hold.\<close>

lemma handle_keeps_keys:
  assumes "counterAhead s" "distinct (map todo_id (rows s))"
  shows "counterAhead (snd (handle e r s)) \<and> distinct (map todo_id (rows (snd (handle e r s))))"
proof (cases r)
  case List
  with assms show ?thesis by (simp add: counterAhead_def rows_GET nextId_GET)
next
  case (Create b)
  from assms have lt: "\<And>x. x \<in> set (rows s) \<Longrightarrow> todo_id x < nextId s"
    by (simp add: counterAhead_def list_all_iff)
  then have fresh: "nextId s \<notin> todo_id ` set (rows s)" by force
  from nextId_POST [of e b s] show ?thesis
  proof
    assume "rows (snd (POST e b s)) = rows s \<and> nextId (snd (POST e b s)) = nextId s"
    with assms Create show ?thesis by (simp add: counterAhead_def)
  next
    assume "\<exists>r. rows (snd (POST e b s)) = rows s @ [r] \<and> todo_id r = nextId s
          \<and> nextId (snd (POST e b s)) = nextId s + 1"
    then obtain r' where r': "rows (snd (POST e b s)) = rows s @ [r']" "todo_id r' = nextId s"
      "nextId (snd (POST e b s)) = nextId s + 1" by blast
    have "\<forall>x\<in>set (rows s). todo_id x < nextId s + 1" using lt by force
    with assms Create r' fresh show ?thesis
      by (simp add: counterAhead_def list_all_iff)
  qed
next
  case (SetCompleted idStr b)
  have "set (map todo_id (rows (snd (PATCH e idStr b s)))) = set (map todo_id (rows s))"
    by (simp only: ids_PATCH)
  then have "\<forall>r\<in>set (rows (snd (PATCH e idStr b s))). todo_id r \<in> todo_id ` set (rows s)"
    by auto
  with assms SetCompleted show ?thesis
    by (auto simp: counterAhead_def list_all_iff ids_PATCH)
next
  case (Delete idStr)
  with assms rows_DELETE [of e idStr s] show ?thesis
    by (auto simp: counterAhead_def list_all_iff nextId_DELETE distinct_map_filter)
qed

lemma run_keeps_keys:
  "counterAhead s \<Longrightarrow> distinct (map todo_id (rows s)) \<Longrightarrow>
   counterAhead (run history s) \<and> distinct (map todo_id (rows (run history s)))"
proof (induction history arbitrary: s)
  case Nil
  then show ?case by simp
next
  case (Cons a history)
  obtain e r where a: "a = (e, r)" by (cases a)
  from handle_keeps_keys [OF Cons.prems, of e r] Cons.IH [of "snd (handle e r s)"] a
  show ?case by simp
qed

lemma reachable_keys:
  "counterAhead (run history \<lparr>rows = [], nextId = n, roundTrips = q\<rparr>)
   \<and> distinct (map todo_id (rows (run history \<lparr>rows = [], nextId = n, roundTrips = q\<rparr>)))"
  by (rule run_keeps_keys) (simp_all add: counterAhead_def)

lemma digit_not_space: "isDecimalDigit c \<Longrightarrow> \<not> isStrWhiteSpaceChar c"
  by (auto simp: isDecimalDigit_def isStrWhiteSpaceChar_def word_le_nat_alt)

lemma digit_not_sign: "isDecimalDigit c \<Longrightarrow> c \<noteq> 0x2B \<and> c \<noteq> 0x2D"
  by (auto simp: isDecimalDigit_def word_le_nat_alt)

lemma radix10_digit: "isRadixDigit 10 c \<longleftrightarrow> isDecimalDigit c"
  by (auto simp: isRadixDigit_def digitValue_def isDecimalDigit_def word_le_nat_alt)

lemma digitValue_decimal: "isDecimalDigit c \<Longrightarrow> digitValue c = Some (unat c - 48)"
  by (simp add: digitValue_def isDecimalDigit_def)

lemma mathInt_decimal:
  "list_all isDecimalDigit ds \<Longrightarrow> mathInt 10 acc ds = foldl (\<lambda>a c. a * 10 + (unat c - 48)) acc ds"
  by (induction ds arbitrary: acc) (simp_all add: digitValue_decimal)

lemma takeWhile_radix10: "takeWhile (isRadixDigit 10) s = takeWhile isDecimalDigit s"
  by (rule takeWhile_cong) (simp_all add: radix10_digit)

lemma parseInt_leading_digits:
  assumes "idStr \<noteq> []" "isDecimalDigit (hd idStr)" "\<not> hasHexPrefix idStr"
  shows "parseInt idStr = toNumber (leadingIntegerPrefix idStr)"
proof -
  from assms obtain d rest where s: "idStr = d # rest" and d: "isDecimalDigit d"
    by (cases idStr) auto
  have drop: "dropWhile isStrWhiteSpaceChar idStr = idStr"
    using s d by (simp add: digit_not_space)
  have sign: "hd idStr \<noteq> 0x2B" "hd idStr \<noteq> 0x2D"
    using s d digit_not_sign [of d] by simp_all
  have Z: "takeWhile isDecimalDigit idStr \<noteq> []"
    using s d by simp
  have all: "list_all isDecimalDigit (takeWhile isDecimalDigit idStr)"
    by (simp add: list_all_iff) (meson set_takeWhileD)
  show ?thesis
    using assms drop sign Z
    by (simp add: parseInt_def Let_def hasHexPrefix_def takeWhile_radix10 
        mathInt_decimal [OF all] leadingIntegerPrefix_def decimalValue_def)
qed

lemma filter_absent_id:
  "find (\<lambda>r. todo_id r = k) xs = None \<Longrightarrow> filter (\<lambda>x. todo_id x \<noteq> k) xs = xs"
  by (simp add: find_None_iff filter_id_conv)

lemma map_absent_id:
  "find (\<lambda>r. todo_id r = k) xs = None \<Longrightarrow> map (\<lambda>x. if todo_id x = k then f x else x) xs = xs"
  by (simp add: find_None_iff map_idI)

lemma DELETE_400_iff: "status (fst (DELETE e idStr s)) = 400 \<longleftrightarrow> isNaN (parseInt idStr)"
  by (auto simp: DELETE_def DELETE_try_def todo_delete_def NextResponse_json_def Let_def
      split: jsnumber.splits option.splits)

lemma PATCH_invalid_id_iff:
  "fst (PATCH e idStr request s) = NextResponse_json (JsonError ''Invalid todo ID'') 400
   \<longleftrightarrow> isNaN (parseInt idStr)"
  by (auto simp: PATCH_def PATCH_try_def todo_update_def NextResponse_json_def Let_def
      split: sum.splits jsvalue.splits jsnumber.splits option.splits)

lemma rows_DELETE_Num:
  "parseInt idStr = Num k \<Longrightarrow>
   rows (snd (DELETE e idStr s))
     = (if storeOk e then filter (\<lambda>x. todo_id x \<noteq> k) (rows s) else rows s)"
  by (auto simp: DELETE_def DELETE_try_def todo_delete_def roundTrip_def isNaN_def Let_def
      filter_absent_id split: option.splits)

lemma rows_PATCH_Num:
  "parseInt idStr = Num k \<Longrightarrow>
   rows (snd (PATCH e idStr (Json (JObject [(js ''completed'', JBool c)])) s))
     = (if storeOk e
        then map (\<lambda>x. if todo_id x = k then x\<lparr>completed := c, updatedAt := now e\<rparr> else x) (rows s)
        else rows s)"
  by (auto simp: PATCH_def PATCH_try_def todo_update_def roundTrip_def isNaN_def Let_def
      map_absent_id split: option.splits)

lemma prefix_5abc:
  "js ''5abc'' \<noteq> []" "isDecimalDigit (hd (js ''5abc''))" "\<not> hasHexPrefix (js ''5abc'')"
  "leadingIntegerPrefix (js ''5abc'') = 5"
  by (simp_all add: js_def isDecimalDigit_def hasHexPrefix_def leadingIntegerPrefix_def decimalValue_def)

lemma prefix_5dot9:
  "js ''5.9'' \<noteq> []" "isDecimalDigit (hd (js ''5.9''))" "\<not> hasHexPrefix (js ''5.9'')"
  "leadingIntegerPrefix (js ''5.9'') = 5"
  by (simp_all add: js_def isDecimalDigit_def hasHexPrefix_def leadingIntegerPrefix_def decimalValue_def)

lemma module_reuses_global:
  "globalForPrisma_prisma p = Some c \<Longrightarrow> NODE_ENV \<noteq> Some ''production'' \<Longrightarrow>
   prisma_module NODE_ENV p = (c, p)"
  by (simp add: prisma_module_def)

lemma evaluations_reuse_global:
  "globalForPrisma_prisma p = Some c \<Longrightarrow> NODE_ENV \<noteq> Some ''production'' \<Longrightarrow>
   evaluations NODE_ENV n p = (replicate n c, p)"
  by (induction n) (simp_all add: module_reuses_global)

lemma first_evaluation:
  "globalForPrisma_prisma p = None \<Longrightarrow>
   prisma_module NODE_ENV p =
     (constructed p,
      if NODE_ENV \<noteq> Some ''production''
      then p\<lparr>constructed := Suc (constructed p), globalForPrisma_prisma := Some (constructed p)\<rparr>
      else p\<lparr>constructed := Suc (constructed p)\<rparr>)"
  by (simp add: prisma_module_def new_PrismaClient_def)

lemma hex_not_space: "isHexDigit c \<Longrightarrow> \<not> isStrWhiteSpaceChar c"
  by (auto simp: isHexDigit_def isStrWhiteSpaceChar_def word_le_nat_alt)

lemma radix16_digit: "isRadixDigit 16 c \<longleftrightarrow> isHexDigit c"
  by (auto simp: isRadixDigit_def digitValue_def isHexDigit_def word_le_nat_alt)

lemma digitValue_hex: "isHexDigit c \<Longrightarrow> digitValue c = Some (hexDigitValue c)"
  by (auto simp: digitValue_def isHexDigit_def hexDigitValue_def word_le_nat_alt)

lemma mathInt_hex:
  "list_all isHexDigit ds \<Longrightarrow> mathInt 16 acc ds = foldl (\<lambda>a c. a * 16 + hexDigitValue c) acc ds"
  by (induction ds arbitrary: acc) (simp_all add: digitValue_hex)

lemma takeWhile_radix16: "takeWhile (isRadixDigit 16) s = takeWhile isHexDigit s"
  by (rule takeWhile_cong) (simp_all add: radix16_digit)

lemma parseInt_hex_prefix:
  assumes "hasHexPrefix idStr"
  shows "parseInt idStr =
           (if hexDigitsAfterPrefix idStr = [] then NaN
            else toNumber (int (hexValue (hexDigitsAfterPrefix idStr))))"
proof -
  from assms obtain rest where s: "idStr = 0x30 # rest"
    by (cases idStr) (auto simp: hasHexPrefix_def)
  have drop: "dropWhile isStrWhiteSpaceChar idStr = idStr"
    using s by (simp add: isStrWhiteSpaceChar_def)
  have sign: "hd idStr \<noteq> 0x2B" "hd idStr \<noteq> 0x2D" "idStr \<noteq> []"
    using s by simp_all
  have all: "list_all isHexDigit (takeWhile isHexDigit (drop 2 idStr))"
    by (simp add: list_all_iff) (meson set_takeWhileD)
  show ?thesis
    using assms drop sign
    by (simp add: parseInt_def Let_def hasHexPrefix_def takeWhile_radix16
        mathInt_hex [OF all] hexDigitsAfterPrefix_def hexValue_def)
qed

lemma PATCH_NaN:
  "isNaN (parseInt idStr) \<Longrightarrow>
   PATCH e idStr request s = (NextResponse_json (JsonError ''Invalid todo ID'') 400, s)"
  by (simp add: PATCH_def PATCH_try_def Let_def)

lemma DELETE_NaN:
  "isNaN (parseInt idStr) \<Longrightarrow>
   DELETE e idStr s = (NextResponse_json (JsonError ''Invalid todo ID'') 400, s)"
  by (simp add: DELETE_def DELETE_try_def Let_def)

lemma prefix_0X1F:
  "hasHexPrefix (js ''0X1F'')" "hexDigitsAfterPrefix (js ''0X1F'') = js ''1F''"
  "hexValue (js ''1F'') = 31" "js ''1F'' \<noteq> []"
  by (simp_all add: js_def hasHexPrefix_def hexDigitsAfterPrefix_def isHexDigit_def hexValue_def
      hexDigitValue_def)

lemma prefix_0Xg:
  "hasHexPrefix (js ''0Xg'')" "hexDigitsAfterPrefix (js ''0Xg'') = []"
  by (simp_all add: js_def hasHexPrefix_def hexDigitsAfterPrefix_def isHexDigit_def)

lemma prefix_big:
  "js ''9007199254740993'' \<noteq> []" "isDecimalDigit (hd (js ''9007199254740993''))"
  "\<not> hasHexPrefix (js ''9007199254740993'')"
  "leadingIntegerPrefix (js ''9007199254740993'') = 9007199254740993"
  by (simp_all add: js_def isDecimalDigit_def hasHexPrefix_def leadingIntegerPrefix_def decimalValue_def)

lemma prefix_big_even:
  "js ''9007199254740994'' \<noteq> []" "isDecimalDigit (hd (js ''9007199254740994''))"
  "\<not> hasHexPrefix (js ''9007199254740994'')"
  "leadingIntegerPrefix (js ''9007199254740994'') = 9007199254740994"
  by (simp_all add: js_def isDecimalDigit_def hasHexPrefix_def leadingIntegerPrefix_def decimalValue_def)

lemma toNumber_big:
  "toNumber 9007199254740993 = Num 9007199254740992"
  "toNumber 9007199254740994 = Num 9007199254740994"
  by (simp_all add: toNumber_def roundTiesToEven_def bitLength.simps Let_def)

lemma parseInt_big: "parseInt (js ''9007199254740993'') = Num 9007199254740992"
  by (simp add: parseInt_leading_digits prefix_big toNumber_big)

lemma PATCH_400_iff:
  "status (fst (PATCH e idStr request s)) = 400 \<longleftrightarrow>
     isNaN (parseInt idStr)
   \<or> (\<exists>b v. request_json request = Inr b \<and> getProperty b (js ''completed'') = Inr v
              \<and> typeof v \<noteq> ''boolean'')"
  by (auto simp: PATCH_def PATCH_try_def todo_update_def NextResponse_json_def Let_def
      split: sum.splits jsvalue.splits jsnumber.splits option.splits)

lemma PATCH_unreadable_body:
  "\<not> isNaN (parseInt idStr) \<Longrightarrow>
   request_json request = Inl err \<or>
     (request_json request = Inr b \<and> getProperty b (js ''completed'') = Inl err) \<Longrightarrow>
   PATCH e idStr request s = (NextResponse_json (JsonError ''Failed to update todo'') 500, s)"
  by (auto simp: PATCH_def PATCH_try_def Let_def)

section \<open>Create: validation of the title\<close>

text \<open>
  What holds of POST for a body that can be destructured: the answer is 400 exactly
  when the \<open>title\<close> property is missing, is not a string, or is the empty string
  (the raw value is tested, before any trimming); every other title is stored trimmed.
\<close>

lemma POST_400_iff:
  "getProperty b (js ''title'') = Inr v \<Longrightarrow>
   status (fst (POST e (Json b) s)) = 400 \<longleftrightarrow> (\<forall>t. v = JString t \<longrightarrow> t = [])"
  by (cases v) (auto simp: handler_defs store_defs Let_def split: sum.splits)

lemma POST_stores_trimmed:
  "getProperty b (js ''title'') = Inr (JString t) \<Longrightarrow> t \<noteq> [] \<Longrightarrow> storeOk e \<Longrightarrow>
   \<exists>r. POST e (Json b) s = (NextResponse_json (JsonTodo r) 201,
           roundTrip (s\<lparr>rows := rows s @ [r], nextId := nextId s + 1\<rparr>)) \<and> title r = trim t
         \<and> todo_id r = nextId s \<and> \<not> completed r \<and> createdAt r = now e \<and> updatedAt r = now e"
  by (simp add: handler_defs store_defs Let_def)

text \<open>
  C1. The claim: Create fails with a ValidationError if and only if the title is absent,
  not a string, or empty after trimming, so that \<open>Create("   ")\<close> fails and no persisted
  title is ever empty. The handler tests \<open>!title\<close> on the raw string and trims only
  when it stores, so a title of three spaces passes the test: the answer is 201 and the
  row that is persisted has the empty title.
\<close>

theorem POST_whitespace_title_stores_empty:
  "POST \<lparr>now = t, storeOk = True\<rparr> (Json (JObject [(js ''title'', JString (js ''   ''))])) s =
     (\<lparr>status = 201,
       payload = JsonTodo \<lparr>todo_id = nextId s, title = [], completed = False,
                           createdAt = t, updatedAt = t\<rparr>\<rparr>,
      roundTrip (s\<lparr>rows := rows s @ [\<lparr>todo_id = nextId s, title = [], completed = False,
                           createdAt = t, updatedAt = t\<rparr>], nextId := nextId s + 1\<rparr>))"
  by (simp add: handler_defs todo_create_def js_def trim_def isStrWhiteSpaceChar_def Let_def)

section \<open>SetCompleted and Delete: validation of the id and of the flag\<close>

text \<open>
  C2, as amended. SetCompleted answers 400 when the id does not parse (\<open>parseInt\<close>
  gives NaN), whatever the body is, and when the body is JSON that can be destructured
  (anything but \<open>null\<close>) and the \<open>completed\<close> value read from it, \<open>undefined\<close>
  when the property is missing, is not a boolean; in each case the store is left as it
  was. When the id parses and the body is not JSON or is \<open>null\<close>, no \<open>completed\<close>
  value can be read and the answer is the 500 of the handler. These are all the ways to
  a 400. Delete answers 400 exactly when the id does not parse.
\<close>

theorem id_and_completed_validation:
  "(isNaN (parseInt idStr) \<longrightarrow>
      PATCH e idStr request s = (NextResponse_json (JsonError ''Invalid todo ID'') 400, s)
    \<and> DELETE e idStr s = (NextResponse_json (JsonError ''Invalid todo ID'') 400, s))
   \<and> (request_json request = Inr b \<and> getProperty b (js ''completed'') = Inr v
        \<and> typeof v \<noteq> ''boolean'' \<longrightarrow>
      status (fst (PATCH e idStr request s)) = 400 \<and> snd (PATCH e idStr request s) = s)
   \<and> (\<not> isNaN (parseInt idStr)
        \<and> (request_json request = Inl err
             \<or> (request_json request = Inr b \<and> getProperty b (js ''completed'') = Inl err)) \<longrightarrow>
      PATCH e idStr request s = (NextResponse_json (JsonError ''Failed to update todo'') 500, s))
   \<and> (status (fst (PATCH e idStr request s)) = 400 \<longleftrightarrow>
        isNaN (parseInt idStr)
        \<or> (\<exists>b v. request_json request = Inr b \<and> getProperty b (js ''completed'') = Inr v
                   \<and> typeof v \<noteq> ''boolean''))
   \<and> (status (fst (DELETE e idStr s)) = 400 \<longleftrightarrow> isNaN (parseInt idStr))"
proof (intro conjI impI)
  assume "isNaN (parseInt idStr)"
  then show "PATCH e idStr request s = (NextResponse_json (JsonError ''Invalid todo ID'') 400, s)"
    and "DELETE e idStr s = (NextResponse_json (JsonError ''Invalid todo ID'') 400, s)"
    by (simp_all add: handler_defs Let_def)
next
  assume "request_json request = Inr b \<and> getProperty b (js ''completed'') = Inr v
        \<and> typeof v \<noteq> ''boolean''"
  then show "status (fst (PATCH e idStr request s)) = 400" and "snd (PATCH e idStr request s) = s"
    by (simp_all add: handler_defs Let_def)
next
  assume "\<not> isNaN (parseInt idStr)
        \<and> (request_json request = Inl err
             \<or> (request_json request = Inr b \<and> getProperty b (js ''completed'') = Inl err))"
  then show "PATCH e idStr request s = (NextResponse_json (JsonError ''Failed to update todo'') 500, s)"
    using PATCH_unreadable_body [of idStr request err b e s] by blast
next
  show "status (fst (PATCH e idStr request s)) = 400 \<longleftrightarrow>
        isNaN (parseInt idStr)
        \<or> (\<exists>b v. request_json request = Inr b \<and> getProperty b (js ''completed'') = Inr v
                   \<and> typeof v \<noteq> ''boolean'')"
    by (rule PATCH_400_iff)
  show "status (fst (DELETE e idStr s)) = 400 \<longleftrightarrow> isNaN (parseInt idStr)"
    by (rule DELETE_400_iff)
qed

theorem id_and_completed_validation_witness:
  "isNaN (parseInt (js ''abc''))
   \<and> PATCH \<lparr>now = 5, storeOk = True\<rparr> (js ''abc'') (Json (JObject [(js ''completed'', JBool True)]))
       \<lparr>rows = [], nextId = 1, roundTrips = 0\<rparr>
     = (NextResponse_json (JsonError ''Invalid todo ID'') 400, \<lparr>rows = [], nextId = 1, roundTrips = 0\<rparr>)
   \<and> DELETE \<lparr>now = 5, storeOk = True\<rparr> (js ''abc'') \<lparr>rows = [], nextId = 1, roundTrips = 0\<rparr>
     = (NextResponse_json (JsonError ''Invalid todo ID'') 400, \<lparr>rows = [], nextId = 1, roundTrips = 0\<rparr>)
   \<and> request_json (Json (JObject [(js ''completed'', JString (js ''true''))]))
     = Inr (JObject [(js ''completed'', JString (js ''true''))])
   \<and> getProperty (JObject [(js ''completed'', JString (js ''true''))]) (js ''completed'')
     = Inr (JString (js ''true''))
   \<and> typeof (JString (js ''true'')) \<noteq> ''boolean''
   \<and> status (fst (PATCH \<lparr>now = 5, storeOk = True\<rparr> (js ''1'')
         (Json (JObject [(js ''completed'', JString (js ''true''))]))
         \<lparr>rows = [], nextId = 1, roundTrips = 0\<rparr>)) = 400
   \<and> \<not> isNaN (parseInt (js ''1'')) \<and> request_json Malformed = Inl SyntaxError
   \<and> PATCH \<lparr>now = 5, storeOk = True\<rparr> (js ''1'') Malformed \<lparr>rows = [], nextId = 1, roundTrips = 0\<rparr>
     = (NextResponse_json (JsonError ''Failed to update todo'') 500,
        \<lparr>rows = [], nextId = 1, roundTrips = 0\<rparr>)
   \<and> request_json (Json JNull) = Inr JNull \<and> getProperty JNull (js ''completed'') = Inl TypeError
   \<and> PATCH \<lparr>now = 5, storeOk = True\<rparr> (js ''1'') (Json JNull) \<lparr>rows = [], nextId = 1, roundTrips = 0\<rparr>
     = (NextResponse_json (JsonError ''Failed to update todo'') 500,
        \<lparr>rows = [], nextId = 1, roundTrips = 0\<rparr>)"
proof -
  let ?e = "\<lparr>now = 5, storeOk = True\<rparr>"
  let ?s = "\<lparr>rows = [], nextId = 1, roundTrips = 0\<rparr>"
  have nan: "isNaN (parseInt (js ''abc''))" "\<not> isNaN (parseInt (js ''1''))"
    by (simp_all add: parseInt_abc parseInt_1 isNaN_def)
  have bad: "request_json (Json (JObject [(js ''completed'', JString (js ''true''))]))
               = Inr (JObject [(js ''completed'', JString (js ''true''))])"
    "getProperty (JObject [(js ''completed'', JString (js ''true''))]) (js ''completed'')
               = Inr (JString (js ''true''))"
    "typeof (JString (js ''true'')) \<noteq> ''boolean''"
    "request_json Malformed = Inl SyntaxError"
    "request_json (Json JNull) = Inr JNull" "getProperty JNull (js ''completed'') = Inl TypeError"
    by simp_all
  have 1: "PATCH ?e (js ''abc'') (Json (JObject [(js ''completed'', JBool True)])) ?s
     = (NextResponse_json (JsonError ''Invalid todo ID'') 400, ?s)
     \<and> DELETE ?e (js ''abc'') ?s = (NextResponse_json (JsonError ''Invalid todo ID'') 400, ?s)"
    using nan id_and_completed_validation [where idStr = "js ''abc''" and e = ?e
      and request = "Json (JObject [(js ''completed'', JBool True)])" and s = ?s
      and b = JNull and v = JNull and err = TypeError]
    by blast
  have 2: "status (fst (PATCH ?e (js ''1'')
         (Json (JObject [(js ''completed'', JString (js ''true''))])) ?s)) = 400"
    using bad id_and_completed_validation [where idStr = "js ''1''"
      and request = "Json (JObject [(js ''completed'', JString (js ''true''))])"
      and b = "JObject [(js ''completed'', JString (js ''true''))]" and v = "JString (js ''true'')"
      and e = ?e and s = ?s and err = TypeError]
    by blast
  have 3: "PATCH ?e (js ''1'') Malformed ?s
     = (NextResponse_json (JsonError ''Failed to update todo'') 500, ?s)"
    using nan bad id_and_completed_validation [where idStr = "js ''1''" and request = Malformed
      and b = JNull and v = JNull and e = ?e and s = ?s and err = SyntaxError]
    by blast
  have 4: "PATCH ?e (js ''1'') (Json JNull) ?s
     = (NextResponse_json (JsonError ''Failed to update todo'') 500, ?s)"
    using nan bad id_and_completed_validation [where idStr = "js ''1''" and request = "Json JNull"
      and b = JNull and v = JNull and e = ?e and s = ?s and err = TypeError]
    by blast
  from nan bad 1 2 3 4 show ?thesis by blast
qed

text \<open>
  C2 as stated covers every SetCompleted request that supplies no boolean
  \<open>completed\<close>. With an id that parses, the body \<open>null\<close> supplies none and the
  destructuring throws, so the answer is 500, while the body \<open>{}\<close> is answered with
  400.
\<close>

theorem null_body_is_500_not_400:
  "\<not> isNaN (parseInt (js ''1''))
   \<and> getProperty JNull (js ''completed'') = Inl TypeError
   \<and> PATCH \<lparr>now = 5, storeOk = True\<rparr> (js ''1'') (Json JNull)
        \<lparr>rows = [\<lparr>todo_id = 1, title = js ''a'', completed = False, createdAt = 3, updatedAt = 3\<rparr>],
          nextId = 2, roundTrips = 0\<rparr>
     = (\<lparr>status = 500, payload = JsonError ''Failed to update todo''\<rparr>,
        \<lparr>rows = [\<lparr>todo_id = 1, title = js ''a'', completed = False, createdAt = 3, updatedAt = 3\<rparr>],
          nextId = 2, roundTrips = 0\<rparr>)
   \<and> PATCH \<lparr>now = 5, storeOk = True\<rparr> (js ''1'') (Json (JObject []))
        \<lparr>rows = [\<lparr>todo_id = 1, title = js ''a'', completed = False, createdAt = 3, updatedAt = 3\<rparr>],
          nextId = 2, roundTrips = 0\<rparr>
     = (\<lparr>status = 400, payload = JsonError ''Completed must be a boolean''\<rparr>,
        \<lparr>rows = [\<lparr>todo_id = 1, title = js ''a'', completed = False, createdAt = 3, updatedAt = 3\<rparr>],
          nextId = 2, roundTrips = 0\<rparr>)"
  by (simp add: handler_defs Let_def parseInt_1 isNaN_def)

section \<open>Validation comes first\<close>

text \<open>
  C6. In Create, SetCompleted and Delete every validation is done before the store is
  called: a failed validation answers 400 at once, and whenever the answer is 400 the
  store is exactly what it was, its count of round trips included, so no call was made.
\<close>

theorem validation_fails_fast:
  "(request_json request = Inr b \<and> getProperty b (js ''title'') = Inr v
      \<and> (\<not> truthy v \<or> typeof v \<noteq> ''string'') \<longrightarrow>
      POST e request s = (NextResponse_json (JsonError ''Title is required'') 400, s))
   \<and> (isNaN (parseInt idStr) \<longrightarrow>
      PATCH e idStr request s = (NextResponse_json (JsonError ''Invalid todo ID'') 400, s)
      \<and> DELETE e idStr s = (NextResponse_json (JsonError ''Invalid todo ID'') 400, s))
   \<and> (\<not> isNaN (parseInt idStr) \<and> request_json request = Inr b
      \<and> getProperty b (js ''completed'') = Inr w \<and> typeof w \<noteq> ''boolean'' \<longrightarrow>
      PATCH e idStr request s = (NextResponse_json (JsonError ''Completed must be a boolean'') 400, s))
   \<and> (status (fst (POST e request s)) = 400 \<longrightarrow> snd (POST e request s) = s)
   \<and> (status (fst (PATCH e idStr request s)) = 400 \<longrightarrow> snd (PATCH e idStr request s) = s)
   \<and> (status (fst (DELETE e idStr s)) = 400 \<longrightarrow> snd (DELETE e idStr s) = s)"
proof -
  have post: "status (fst (POST e request s)) = 400 \<longrightarrow> snd (POST e request s) = s"
    by (auto simp: handler_defs store_defs Let_def split: sum.splits jsvalue.splits body.splits)
  have patch: "status (fst (PATCH e idStr request s)) = 400 \<longrightarrow> snd (PATCH e idStr request s) = s"
    by (auto simp: handler_defs store_defs Let_def
        split: sum.splits jsvalue.splits jsnumber.splits option.splits)
  have del: "status (fst (DELETE e idStr s)) = 400 \<longrightarrow> snd (DELETE e idStr s) = s"
    by (auto simp: handler_defs store_defs Let_def
        split: sum.splits jsnumber.splits option.splits)
  show ?thesis using post patch del by (simp add: handler_defs Let_def)
qed

theorem validation_fails_fast_witness:
  "request_json (Json (JObject [])) = Inr (JObject [])
   \<and> getProperty (JObject []) (js ''title'') = Inr JUndefined \<and> \<not> truthy JUndefined
   \<and> POST \<lparr>now = 9, storeOk = True\<rparr> (Json (JObject []))
        \<lparr>rows = [\<lparr>todo_id = 1, title = js ''a'', completed = False, createdAt = 3, updatedAt = 3\<rparr>],
          nextId = 2, roundTrips = 1\<rparr>
      = (NextResponse_json (JsonError ''Title is required'') 400,
        \<lparr>rows = [\<lparr>todo_id = 1, title = js ''a'', completed = False, createdAt = 3, updatedAt = 3\<rparr>],
          nextId = 2, roundTrips = 1\<rparr>)
   \<and> isNaN (parseInt (js ''abc''))
   \<and> DELETE \<lparr>now = 9, storeOk = True\<rparr> (js ''abc'')
        \<lparr>rows = [\<lparr>todo_id = 1, title = js ''a'', completed = False, createdAt = 3, updatedAt = 3\<rparr>],
          nextId = 2, roundTrips = 1\<rparr>
      = (NextResponse_json (JsonError ''Invalid todo ID'') 400,
        \<lparr>rows = [\<lparr>todo_id = 1, title = js ''a'', completed = False, createdAt = 3, updatedAt = 3\<rparr>],
          nextId = 2, roundTrips = 1\<rparr>)
   \<and> \<not> isNaN (parseInt (js ''1''))
   \<and> getProperty (JObject []) (js ''completed'') = Inr JUndefined
   \<and> typeof JUndefined \<noteq> ''boolean''
   \<and> PATCH \<lparr>now = 9, storeOk = True\<rparr> (js ''1'') (Json (JObject []))
        \<lparr>rows = [\<lparr>todo_id = 1, title = js ''a'', completed = False, createdAt = 3, updatedAt = 3\<rparr>],
          nextId = 2, roundTrips = 1\<rparr>
      = (NextResponse_json (JsonError ''Completed must be a boolean'') 400,
        \<lparr>rows = [\<lparr>todo_id = 1, title = js ''a'', completed = False, createdAt = 3, updatedAt = 3\<rparr>],
          nextId = 2, roundTrips = 1\<rparr>)
   \<and> status (fst (PATCH \<lparr>now = 9, storeOk = True\<rparr> (js ''1'') (Json (JObject []))
        \<lparr>rows = [\<lparr>todo_id = 1, title = js ''a'', completed = False, createdAt = 3, updatedAt = 3\<rparr>],
          nextId = 2, roundTrips = 1\<rparr>)) = 400
   \<and> status (fst (POST \<lparr>now = 9, storeOk = True\<rparr> (Json (JObject []))
        \<lparr>rows = [\<lparr>todo_id = 1, title = js ''a'', completed = False, createdAt = 3, updatedAt = 3\<rparr>],
          nextId = 2, roundTrips = 1\<rparr>)) = 400
   \<and> status (fst (DELETE \<lparr>now = 9, storeOk = True\<rparr> (js ''abc'')
        \<lparr>rows = [\<lparr>todo_id = 1, title = js ''a'', completed = False, createdAt = 3, updatedAt = 3\<rparr>],
          nextId = 2, roundTrips = 1\<rparr>)) = 400"
proof -
  have h: "isNaN (parseInt (js ''abc''))" "\<not> isNaN (parseInt (js ''1''))"
    by (simp_all add: parseInt_abc parseInt_1 isNaN_def)
  have g: "request_json (Json (JObject [])) = Inr (JObject [])"
    "getProperty (JObject []) (js ''title'') = Inr JUndefined" "\<not> truthy JUndefined"
    "getProperty (JObject []) (js ''completed'') = Inr JUndefined" "typeof JUndefined \<noteq> ''boolean''"
    by simp_all
  from h g
    validation_fails_fast [where idStr = "js ''abc''" and request = "Json (JObject [])"
      and b = "JObject []" and v = JUndefined and w = JUndefined
      and e = "\<lparr>now = 9, storeOk = True\<rparr>"
      and s = "\<lparr>rows = [\<lparr>todo_id = 1, title = js ''a'', completed = False, createdAt = 3, updatedAt = 3\<rparr>],
          nextId = 2, roundTrips = 1\<rparr>"]
    validation_fails_fast [where idStr = "js ''1''" and request = "Json (JObject [])"
      and b = "JObject []" and v = JUndefined and w = JUndefined
      and e = "\<lparr>now = 9, storeOk = True\<rparr>"
      and s = "\<lparr>rows = [\<lparr>todo_id = 1, title = js ''a'', completed = False, createdAt = 3, updatedAt = 3\<rparr>],
          nextId = 2, roundTrips = 1\<rparr>"]
  show ?thesis by (simp add: NextResponse_json_def)
qed

section \<open>Every answer is well formed\<close>



section \<open>A body that is not JSON\<close>

text \<open>
  C9, as amended. A Create request whose body is not valid JSON is answered with
  500 and \<open>Failed to create todo\<close>; a SetCompleted request whose body is not valid
  JSON is answered with 500 and \<open>Failed to update todo\<close> when its id parses. The
  store is not called.
\<close>

theorem malformed_body_is_500:
  "POST e Malformed s = (NextResponse_json (JsonError ''Failed to create todo'') 500, s)
   \<and> (\<not> isNaN (parseInt idStr) \<longrightarrow>
        PATCH e idStr Malformed s = (NextResponse_json (JsonError ''Failed to update todo'') 500, s))"
  by (simp add: handler_defs Let_def)

theorem malformed_body_is_500_witness:
  "\<not> isNaN (parseInt (js ''1''))
   \<and> PATCH \<lparr>now = 0, storeOk = True\<rparr> (js ''1'') Malformed \<lparr>rows = [], nextId = 1, roundTrips = 0\<rparr>
     = (NextResponse_json (JsonError ''Failed to update todo'') 500,
        \<lparr>rows = [], nextId = 1, roundTrips = 0\<rparr>)"
  using malformed_body_is_500 [where idStr = "js ''1''" and e = "\<lparr>now = 0, storeOk = True\<rparr>"
      and s = "\<lparr>rows = [], nextId = 1, roundTrips = 0\<rparr>"]
  by (simp add: parseInt_1 isNaN_def)

text \<open>
  C9 as stated covers every SetCompleted request with such a body. The id is checked
  before the body is read, so with an id that does not parse the answer is 400.
\<close>

theorem malformed_body_with_bad_id_is_400:
  "PATCH \<lparr>now = 0, storeOk = True\<rparr> (js ''abc'') Malformed \<lparr>rows = [], nextId = 1, roundTrips = 0\<rparr>
     = (\<lparr>status = 400, payload = JsonError ''Invalid todo ID''\<rparr>,
        \<lparr>rows = [], nextId = 1, roundTrips = 0\<rparr>)"
  by (simp add: handler_defs Let_def parseInt_abc isNaN_def)

section \<open>List: every row, newest first\<close>

text \<open>
  C4. List has no input beyond the store. When the store call goes through, the answer
  is 200 with every row of the table, each once, ordered by \<open>createdAt\<close> descending;
  when it fails, the answer is 500 with \<open>Failed to fetch todos\<close> and no list at all.
  After Create(A) and then Create(B), the second at a later reading of the store's clock
  than the first, List returns the record of B at an earlier position than the record
  of A.
\<close>

theorem list_returns_all_newest_first:
  "(storeOk e \<longrightarrow>
      (\<exists>ts. GET e s = (NextResponse_json (JsonTodos ts) 200, roundTrip s)
            \<and> mset ts = mset (rows s)
            \<and> sorted_wrt (\<lambda>a b. createdAt b \<le> createdAt a) ts))
   \<and> (\<not> storeOk e \<longrightarrow>
      GET e s = (NextResponse_json (JsonError ''Failed to fetch todos'') 500, roundTrip s))
   \<and> (getProperty bA (js ''title'') = Inr (JString tA) \<and> tA \<noteq> [] \<and> storeOk eA
      \<and> getProperty bB (js ''title'') = Inr (JString tB) \<and> tB \<noteq> [] \<and> storeOk eB
      \<and> now eA < now eB \<and> storeOk e \<longrightarrow>
      (\<exists>A B ts i j.
          fst (POST eA (Json bA) s) = NextResponse_json (JsonTodo A) 201
        \<and> fst (POST eB (Json bB) (snd (POST eA (Json bA) s))) = NextResponse_json (JsonTodo B) 201
        \<and> fst (GET e (snd (POST eB (Json bB) (snd (POST eA (Json bA) s)))))
            = NextResponse_json (JsonTodos ts) 200
        \<and> title A = trim tA \<and> title B = trim tB
        \<and> i < j \<and> j < length ts \<and> ts ! i = B \<and> ts ! j = A))"
proof (intro conjI impI)
  assume "storeOk e"
  then show "\<exists>ts. GET e s = (NextResponse_json (JsonTodos ts) 200, roundTrip s)
            \<and> mset ts = mset (rows s)
            \<and> sorted_wrt (\<lambda>a b. createdAt b \<le> createdAt a) ts"
    using orderBy_mset [of "rows s"] orderBy_sorted [of "rows s"] by (auto simp: GET_ok)
next
  assume "\<not> storeOk e"
  then show "GET e s = (NextResponse_json (JsonError ''Failed to fetch todos'') 500, roundTrip s)"
    by (rule GET_fail)
next
  assume h: "getProperty bA (js ''title'') = Inr (JString tA) \<and> tA \<noteq> [] \<and> storeOk eA
      \<and> getProperty bB (js ''title'') = Inr (JString tB) \<and> tB \<noteq> [] \<and> storeOk eB
      \<and> now eA < now eB \<and> storeOk e"
  define A where "A = \<lparr>todo_id = nextId s, title = trim tA, completed = False,
                           createdAt = now eA, updatedAt = now eA\<rparr>"
  define s1 where "s1 = roundTrip (s\<lparr>rows := rows s @ [A], nextId := nextId s + 1\<rparr>)"
  define B where "B = \<lparr>todo_id = nextId s1, title = trim tB, completed = False,
                           createdAt = now eB, updatedAt = now eB\<rparr>"
  define s2 where "s2 = roundTrip (s1\<lparr>rows := rows s1 @ [B], nextId := nextId s1 + 1\<rparr>)"
  define ts where "ts = orderBy_createdAt Desc (rows s2)"
  from h have pA: "POST eA (Json bA) s = (NextResponse_json (JsonTodo A) 201, s1)"
    by (simp add: POST_ok A_def s1_def)
  from h have pB: "POST eB (Json bB) s1 = (NextResponse_json (JsonTodo B) 201, s2)"
    by (simp add: POST_ok B_def s2_def)
  from h have g: "GET e s2 = (NextResponse_json (JsonTodos ts) 200, roundTrip s2)"
    by (simp add: GET_ok ts_def)
  have mem: "A \<in> set ts" "B \<in> set ts"
    by (simp_all add: ts_def orderBy_set s2_def s1_def roundTrip_def)
  from h have lt: "createdAt A < createdAt B" by (simp add: A_def B_def)
  have "sorted_wrt (\<lambda>a b. createdAt b \<le> createdAt a) ts"
    by (simp add: ts_def orderBy_sorted)
  from newer_comes_first [OF this mem lt]
  obtain i j where "i < j" "j < length ts" "ts ! i = B" "ts ! j = A" by blast
  moreover have "title A = trim tA" "title B = trim tB" by (simp_all add: A_def B_def)
  ultimately show "\<exists>A B ts i j.
          fst (POST eA (Json bA) s) = NextResponse_json (JsonTodo A) 201
        \<and> fst (POST eB (Json bB) (snd (POST eA (Json bA) s))) = NextResponse_json (JsonTodo B) 201
        \<and> fst (GET e (snd (POST eB (Json bB) (snd (POST eA (Json bA) s)))))
            = NextResponse_json (JsonTodos ts) 200
        \<and> title A = trim tA \<and> title B = trim tB
        \<and> i < j \<and> j < length ts \<and> ts ! i = B \<and> ts ! j = A"
    using pA pB g
    by (intro exI [of _ A] exI [of _ B] exI [of _ ts] exI [of _ i] exI [of _ j]) simp
qed

theorem list_returns_all_newest_first_witness:
  "storeOk \<lparr>now = 30, storeOk = True\<rparr> \<and> \<not> storeOk \<lparr>now = 30, storeOk = False\<rparr>
   \<and> getProperty (JObject [(js ''title'', JString (js ''A''))]) (js ''title'') = Inr (JString (js ''A''))
   \<and> js ''A'' \<noteq> [] \<and> storeOk \<lparr>now = 10, storeOk = True\<rparr>
   \<and> getProperty (JObject [(js ''title'', JString (js ''B''))]) (js ''title'') = Inr (JString (js ''B''))
   \<and> js ''B'' \<noteq> [] \<and> storeOk \<lparr>now = 20, storeOk = True\<rparr>
   \<and> now \<lparr>now = 10, storeOk = True\<rparr> < now \<lparr>now = 20, storeOk = True\<rparr>
   \<and> (\<exists>ts. GET \<lparr>now = 30, storeOk = True\<rparr> \<lparr>rows = [], nextId = 1, roundTrips = 0\<rparr>
              = (NextResponse_json (JsonTodos ts) 200, roundTrip \<lparr>rows = [], nextId = 1, roundTrips = 0\<rparr>)
            \<and> mset ts = mset (rows \<lparr>rows = [], nextId = 1, roundTrips = 0\<rparr>)
            \<and> sorted_wrt (\<lambda>a b. createdAt b \<le> createdAt a) ts)
   \<and> GET \<lparr>now = 30, storeOk = False\<rparr> \<lparr>rows = [], nextId = 1, roundTrips = 0\<rparr>
       = (NextResponse_json (JsonError ''Failed to fetch todos'') 500,
          roundTrip \<lparr>rows = [], nextId = 1, roundTrips = 0\<rparr>)
   \<and> (\<exists>A B ts i j.
          fst (POST \<lparr>now = 10, storeOk = True\<rparr> (Json (JObject [(js ''title'', JString (js ''A''))]))
                 \<lparr>rows = [], nextId = 1, roundTrips = 0\<rparr>) = NextResponse_json (JsonTodo A) 201
        \<and> fst (POST \<lparr>now = 20, storeOk = True\<rparr> (Json (JObject [(js ''title'', JString (js ''B''))]))
                 (snd (POST \<lparr>now = 10, storeOk = True\<rparr> (Json (JObject [(js ''title'', JString (js ''A''))]))
                 \<lparr>rows = [], nextId = 1, roundTrips = 0\<rparr>))) = NextResponse_json (JsonTodo B) 201
        \<and> fst (GET \<lparr>now = 30, storeOk = True\<rparr>
                 (snd (POST \<lparr>now = 20, storeOk = True\<rparr> (Json (JObject [(js ''title'', JString (js ''B''))]))
                 (snd (POST \<lparr>now = 10, storeOk = True\<rparr> (Json (JObject [(js ''title'', JString (js ''A''))]))
                 \<lparr>rows = [], nextId = 1, roundTrips = 0\<rparr>)))))
            = NextResponse_json (JsonTodos ts) 200
        \<and> title A = trim (js ''A'') \<and> title B = trim (js ''B'')
        \<and> i < j \<and> j < length ts \<and> ts ! i = B \<and> ts ! j = A)"
proof -
  have h: "getProperty (JObject [(js ''title'', JString (js ''A''))]) (js ''title'') = Inr (JString (js ''A''))"
    "getProperty (JObject [(js ''title'', JString (js ''B''))]) (js ''title'') = Inr (JString (js ''B''))"
    "js ''A'' \<noteq> []" "js ''B'' \<noteq> []"
    by (simp_all add: js_def)
  note T = list_returns_all_newest_first [where e = "\<lparr>now = 30, storeOk = True\<rparr>"
      and s = "\<lparr>rows = [], nextId = 1, roundTrips = 0\<rparr>"
      and eA = "\<lparr>now = 10, storeOk = True\<rparr>" and eB = "\<lparr>now = 20, storeOk = True\<rparr>"
      and bA = "JObject [(js ''title'', JString (js ''A''))]" and tA = "js ''A''"
      and bB = "JObject [(js ''title'', JString (js ''B''))]" and tB = "js ''B''"]
  note F = list_returns_all_newest_first [where e = "\<lparr>now = 30, storeOk = False\<rparr>"
      and s = "\<lparr>rows = [], nextId = 1, roundTrips = 0\<rparr>"]
  from T h have 1: "\<exists>ts. GET \<lparr>now = 30, storeOk = True\<rparr> \<lparr>rows = [], nextId = 1, roundTrips = 0\<rparr>
              = (NextResponse_json (JsonTodos ts) 200, roundTrip \<lparr>rows = [], nextId = 1, roundTrips = 0\<rparr>)
            \<and> mset ts = mset (rows \<lparr>rows = [], nextId = 1, roundTrips = 0\<rparr>)
            \<and> sorted_wrt (\<lambda>a b. createdAt b \<le> createdAt a) ts"
    by simp
  from F have 2: "GET \<lparr>now = 30, storeOk = False\<rparr> \<lparr>rows = [], nextId = 1, roundTrips = 0\<rparr>
       = (NextResponse_json (JsonError ''Failed to fetch todos'') 500,
          roundTrip \<lparr>rows = [], nextId = 1, roundTrips = 0\<rparr>)"
    by simp
  from T h have 3: "\<exists>A B ts i j.
          fst (POST \<lparr>now = 10, storeOk = True\<rparr> (Json (JObject [(js ''title'', JString (js ''A''))]))
                 \<lparr>rows = [], nextId = 1, roundTrips = 0\<rparr>) = NextResponse_json (JsonTodo A) 201
        \<and> fst (POST \<lparr>now = 20, storeOk = True\<rparr> (Json (JObject [(js ''title'', JString (js ''B''))]))
                 (snd (POST \<lparr>now = 10, storeOk = True\<rparr> (Json (JObject [(js ''title'', JString (js ''A''))]))
                 \<lparr>rows = [], nextId = 1, roundTrips = 0\<rparr>))) = NextResponse_json (JsonTodo B) 201
        \<and> fst (GET \<lparr>now = 30, storeOk = True\<rparr>
                 (snd (POST \<lparr>now = 20, storeOk = True\<rparr> (Json (JObject [(js ''title'', JString (js ''B''))]))
                 (snd (POST \<lparr>now = 10, storeOk = True\<rparr> (Json (JObject [(js ''title'', JString (js ''A''))]))
                 \<lparr>rows = [], nextId = 1, roundTrips = 0\<rparr>)))))
            = NextResponse_json (JsonTodos ts) 200
        \<and> title A = trim (js ''A'') \<and> title B = trim (js ''B'')
        \<and> i < j \<and> j < length ts \<and> ts ! i = B \<and> ts ! j = A"
    by simp
  from h 1 2 3 show ?thesis by simp
qed

section \<open>SetCompleted: one row, two fields\<close>

text \<open>
  C5. With ids unique in the table (the primary key), a SetCompleted call that reaches
  the row at position \<open>i\<close> replaces exactly that row: its \<open>completed\<close> becomes the
  supplied value and its \<open>updatedAt\<close> the current clock reading, its id, title and
  \<open>createdAt\<close> stay, and every other row and the id counter are as before. No other
  handler changes \<open>completed\<close>: List leaves the rows alone, Delete only removes rows,
  and Create only appends one row whose \<open>completed\<close> is false.
\<close>

theorem set_completed_frame:
  "(distinct (map todo_id (rows s)) \<and> storeOk e \<and> parseInt idStr = Num k
      \<and> request_json request = Inr b \<and> getProperty b (js ''completed'') = Inr (JBool c)
      \<and> i < length (rows s) \<and> todo_id (rows s ! i) = k \<longrightarrow>
      (\<exists>r'. PATCH e idStr request s =
               (NextResponse_json (JsonTodo r') 200, roundTrip (s\<lparr>rows := (rows s)[i := r']\<rparr>))
           \<and> completed r' = c \<and> updatedAt r' = now e
           \<and> todo_id r' = todo_id (rows s ! i) \<and> title r' = title (rows s ! i)
           \<and> createdAt r' = createdAt (rows s ! i)))
   \<and> rows (snd (GET e s)) = rows s
   \<and> (rows (snd (POST e request s)) = rows s
       \<or> (\<exists>r. rows (snd (POST e request s)) = rows s @ [r] \<and> \<not> completed r \<and> todo_id r = nextId s))
   \<and> (rows (snd (DELETE e idStr s)) = rows s
       \<or> (\<exists>k. rows (snd (DELETE e idStr s)) = filter (\<lambda>x. todo_id x \<noteq> k) (rows s)))"
proof (intro conjI impI)
  assume h: "distinct (map todo_id (rows s)) \<and> storeOk e \<and> parseInt idStr = Num k
      \<and> request_json request = Inr b \<and> getProperty b (js ''completed'') = Inr (JBool c)
      \<and> i < length (rows s) \<and> todo_id (rows s ! i) = k"
  then have "PATCH e idStr request s =
     (NextResponse_json (JsonTodo ((rows s ! i)\<lparr>completed := c, updatedAt := now e\<rparr>)) 200,
      roundTrip (s\<lparr>rows := (rows s)[i := (rows s ! i)\<lparr>completed := c, updatedAt := now e\<rparr>]\<rparr>))"
    using PATCH_ok [of s e idStr k request b c i] by simp
  then show "\<exists>r'. PATCH e idStr request s =
               (NextResponse_json (JsonTodo r') 200, roundTrip (s\<lparr>rows := (rows s)[i := r']\<rparr>))
           \<and> completed r' = c \<and> updatedAt r' = now e
           \<and> todo_id r' = todo_id (rows s ! i) \<and> title r' = title (rows s ! i)
           \<and> createdAt r' = createdAt (rows s ! i)"
    by (intro exI [of _ "(rows s ! i)\<lparr>completed := c, updatedAt := now e\<rparr>"]) simp
qed (rule rows_GET rows_POST rows_DELETE)+

theorem set_completed_frame_witness:
  "distinct (map todo_id
      [\<lparr>todo_id = 1, title = js ''a'', completed = False, createdAt = 3, updatedAt = 3\<rparr>,
       \<lparr>todo_id = 2, title = js ''b'', completed = False, createdAt = 4, updatedAt = 4\<rparr>])
   \<and> storeOk \<lparr>now = 9, storeOk = True\<rparr> \<and> parseInt (js ''2'') = Num 2
   \<and> (1::nat) < length
      [\<lparr>todo_id = 1, title = js ''a'', completed = False, createdAt = 3, updatedAt = 3\<rparr>,
       \<lparr>todo_id = 2, title = js ''b'', completed = False, createdAt = 4, updatedAt = 4\<rparr>]
   \<and> todo_id
      ([\<lparr>todo_id = 1, title = js ''a'', completed = False, createdAt = 3, updatedAt = 3\<rparr>,
        \<lparr>todo_id = 2, title = js ''b'', completed = False, createdAt = 4, updatedAt = 4\<rparr>] ! 1) = 2
   \<and> request_json (Json (JObject [(js ''completed'', JBool True)]))
       = Inr (JObject [(js ''completed'', JBool True)])
   \<and> getProperty (JObject [(js ''completed'', JBool True)]) (js ''completed'') = Inr (JBool True)
   \<and> PATCH \<lparr>now = 9, storeOk = True\<rparr> (js ''2'') (Json (JObject [(js ''completed'', JBool True)]))
       \<lparr>rows = [\<lparr>todo_id = 1, title = js ''a'', completed = False, createdAt = 3, updatedAt = 3\<rparr>,
                \<lparr>todo_id = 2, title = js ''b'', completed = False, createdAt = 4, updatedAt = 4\<rparr>],
         nextId = 3, roundTrips = 2\<rparr>
     = (\<lparr>status = 200,
         payload = JsonTodo \<lparr>todo_id = 2, title = js ''b'', completed = True, createdAt = 4, updatedAt = 9\<rparr>\<rparr>,
        \<lparr>rows = [\<lparr>todo_id = 1, title = js ''a'', completed = False, createdAt = 3, updatedAt = 3\<rparr>,
                 \<lparr>todo_id = 2, title = js ''b'', completed = True, createdAt = 4, updatedAt = 9\<rparr>],
          nextId = 3, roundTrips = 3\<rparr>)"
proof -
  have h: "parseInt (js ''2'') = Num 2"
    "getProperty (JObject [(js ''completed'', JBool True)]) (js ''completed'') = Inr (JBool True)"
    by (simp_all add: parseInt_2)
  from h set_completed_frame [where s = "\<lparr>rows = [\<lparr>todo_id = 1, title = js ''a'', completed = False, createdAt = 3, updatedAt = 3\<rparr>,
                \<lparr>todo_id = 2, title = js ''b'', completed = False, createdAt = 4, updatedAt = 4\<rparr>],
         nextId = 3, roundTrips = 2\<rparr>" and e = "\<lparr>now = 9, storeOk = True\<rparr>" and idStr = "js ''2''"
      and k = 2 and request = "Json (JObject [(js ''completed'', JBool True)])"
      and b = "JObject [(js ''completed'', JBool True)]" and c = True and i = 1]
  obtain r' where r: "PATCH \<lparr>now = 9, storeOk = True\<rparr> (js ''2'') (Json (JObject [(js ''completed'', JBool True)]))
       \<lparr>rows = [\<lparr>todo_id = 1, title = js ''a'', completed = False, createdAt = 3, updatedAt = 3\<rparr>,
                \<lparr>todo_id = 2, title = js ''b'', completed = False, createdAt = 4, updatedAt = 4\<rparr>],
         nextId = 3, roundTrips = 2\<rparr>
     = (NextResponse_json (JsonTodo r') 200,
        roundTrip \<lparr>rows = [\<lparr>todo_id = 1, title = js ''a'', completed = False, createdAt = 3, updatedAt = 3\<rparr>, r'],
          nextId = 3, roundTrips = 2\<rparr>)"
     "completed r' = True" "updatedAt r' = 9" "todo_id r' = 2" "title r' = js ''b''" "createdAt r' = 4"
    by auto
  then have "r' = \<lparr>todo_id = 2, title = js ''b'', completed = True, createdAt = 4, updatedAt = 9\<rparr>"
    by (cases r') simp
  with r h show ?thesis by (simp add: NextResponse_json_def roundTrip_def)
qed

section \<open>Delete is final\<close>

text \<open>
  C3. In a store whose id counter is ahead of every id in the table, a Delete of an
  existing id that reaches the store answers 200 with \<open>{success: true}\<close> and removes
  the rows of that id and no other. After it, whatever requests follow, the id stays
  absent: a SetCompleted of that id to true is answered with the 500 error
  \<open>Failed to update todo\<close>, and a List never returns a record with that id.
\<close>

theorem delete_is_final:
  "counterAhead s \<and> storeOk e \<and> parseInt idStr = Num k \<and> k \<in> todo_id ` set (rows s) \<longrightarrow>
     DELETE e idStr s = (NextResponse_json (JsonSuccess True) 200,
                         roundTrip (s\<lparr>rows := filter (\<lambda>x. todo_id x \<noteq> k) (rows s)\<rparr>))
   \<and> (\<forall>later e'.
         k \<notin> todo_id ` set (rows (run later (snd (DELETE e idStr s))))
       \<and> PATCH e' idStr (Json (JObject [(js ''completed'', JBool True)]))
            (run later (snd (DELETE e idStr s)))
          = (NextResponse_json (JsonError ''Failed to update todo'') 500,
             roundTrip (run later (snd (DELETE e idStr s))))
       \<and> (\<forall>ts. payload (fst (GET e' (run later (snd (DELETE e idStr s))))) = JsonTodos ts
              \<longrightarrow> k \<notin> todo_id ` set ts))"
proof (intro impI)
  assume h: "counterAhead s \<and> storeOk e \<and> parseInt idStr = Num k \<and> k \<in> todo_id ` set (rows s)"
  define s1 where "s1 = roundTrip (s\<lparr>rows := filter (\<lambda>x. todo_id x \<noteq> k) (rows s)\<rparr>)"
  from h have d: "DELETE e idStr s = (NextResponse_json (JsonSuccess True) 200, s1)"
    by (simp add: DELETE_ok s1_def)
  from h have "k < nextId s"
    by (auto simp: counterAhead_def list_all_iff)
  then have g1: "k < nextId s1" "k \<notin> todo_id ` set (rows s1)"
    by (auto simp: s1_def roundTrip_def)
  have "\<forall>later e'.
         k \<notin> todo_id ` set (rows (run later s1))
       \<and> PATCH e' idStr (Json (JObject [(js ''completed'', JBool True)])) (run later s1)
          = (NextResponse_json (JsonError ''Failed to update todo'') 500, roundTrip (run later s1))
       \<and> (\<forall>ts. payload (fst (GET e' (run later s1))) = JsonTodos ts \<longrightarrow> k \<notin> todo_id ` set ts)"
  proof (intro allI conjI impI)
    fix later e'
    from run_keeps_gone [OF g1, of later]
    show gone: "k \<notin> todo_id ` set (rows (run later s1))" by simp
    from h gone show "PATCH e' idStr (Json (JObject [(js ''completed'', JBool True)])) (run later s1)
          = (NextResponse_json (JsonError ''Failed to update todo'') 500, roundTrip (run later s1))"
      by (simp add: PATCH_gone)
    fix ts
    assume "payload (fst (GET e' (run later s1))) = JsonTodos ts"
    then have "set ts = set (rows (run later s1))" by (rule GET_lists_rows)
    with gone show "k \<notin> todo_id ` set ts" by simp
  qed
  with d show "DELETE e idStr s = (NextResponse_json (JsonSuccess True) 200,
                         roundTrip (s\<lparr>rows := filter (\<lambda>x. todo_id x \<noteq> k) (rows s)\<rparr>))
   \<and> (\<forall>later e'.
         k \<notin> todo_id ` set (rows (run later (snd (DELETE e idStr s))))
       \<and> PATCH e' idStr (Json (JObject [(js ''completed'', JBool True)]))
            (run later (snd (DELETE e idStr s)))
          = (NextResponse_json (JsonError ''Failed to update todo'') 500,
             roundTrip (run later (snd (DELETE e idStr s))))
       \<and> (\<forall>ts. payload (fst (GET e' (run later (snd (DELETE e idStr s))))) = JsonTodos ts
              \<longrightarrow> k \<notin> todo_id ` set ts))"
    by (simp add: s1_def)
qed

theorem delete_is_final_witness:
  "counterAhead \<lparr>rows = [\<lparr>todo_id = 1, title = js ''a'', completed = False, createdAt = 3, updatedAt = 3\<rparr>,
                          \<lparr>todo_id = 2, title = js ''b'', completed = False, createdAt = 4, updatedAt = 4\<rparr>],
                  nextId = 3, roundTrips = 2\<rparr>
   \<and> storeOk \<lparr>now = 9, storeOk = True\<rparr> \<and> parseInt (js ''1'') = Num 1
   \<and> (1::int) \<in> todo_id ` set (rows
         \<lparr>rows = [\<lparr>todo_id = 1, title = js ''a'', completed = False, createdAt = 3, updatedAt = 3\<rparr>,
                  \<lparr>todo_id = 2, title = js ''b'', completed = False, createdAt = 4, updatedAt = 4\<rparr>],
           nextId = 3, roundTrips = 2\<rparr>)
   \<and> DELETE \<lparr>now = 9, storeOk = True\<rparr> (js ''1'')
         \<lparr>rows = [\<lparr>todo_id = 1, title = js ''a'', completed = False, createdAt = 3, updatedAt = 3\<rparr>,
                  \<lparr>todo_id = 2, title = js ''b'', completed = False, createdAt = 4, updatedAt = 4\<rparr>],
           nextId = 3, roundTrips = 2\<rparr>
       = (\<lparr>status = 200, payload = JsonSuccess True\<rparr>,
          \<lparr>rows = [\<lparr>todo_id = 2, title = js ''b'', completed = False, createdAt = 4, updatedAt = 4\<rparr>],
            nextId = 3, roundTrips = 3\<rparr>)
   \<and> run [(\<lparr>now = 10, storeOk = True\<rparr>, Create (Json (JObject [(js ''title'', JString (js ''c''))])))]
         \<lparr>rows = [\<lparr>todo_id = 2, title = js ''b'', completed = False, createdAt = 4, updatedAt = 4\<rparr>],
            nextId = 3, roundTrips = 3\<rparr>
       = \<lparr>rows = [\<lparr>todo_id = 2, title = js ''b'', completed = False, createdAt = 4, updatedAt = 4\<rparr>,
                  \<lparr>todo_id = 3, title = js ''c'', completed = False, createdAt = 10, updatedAt = 10\<rparr>],
            nextId = 4, roundTrips = 4\<rparr>
   \<and> PATCH \<lparr>now = 11, storeOk = True\<rparr> (js ''1'') (Json (JObject [(js ''completed'', JBool True)]))
         \<lparr>rows = [\<lparr>todo_id = 2, title = js ''b'', completed = False, createdAt = 4, updatedAt = 4\<rparr>,
                  \<lparr>todo_id = 3, title = js ''c'', completed = False, createdAt = 10, updatedAt = 10\<rparr>],
            nextId = 4, roundTrips = 4\<rparr>
       = (\<lparr>status = 500, payload = JsonError ''Failed to update todo''\<rparr>,
          \<lparr>rows = [\<lparr>todo_id = 2, title = js ''b'', completed = False, createdAt = 4, updatedAt = 4\<rparr>,
                  \<lparr>todo_id = 3, title = js ''c'', completed = False, createdAt = 10, updatedAt = 10\<rparr>],
            nextId = 4, roundTrips = 5\<rparr>)
   \<and> payload (fst (GET \<lparr>now = 11, storeOk = True\<rparr>
         \<lparr>rows = [\<lparr>todo_id = 2, title = js ''b'', completed = False, createdAt = 4, updatedAt = 4\<rparr>,
                  \<lparr>todo_id = 3, title = js ''c'', completed = False, createdAt = 10, updatedAt = 10\<rparr>],
            nextId = 4, roundTrips = 4\<rparr>))
       = JsonTodos [\<lparr>todo_id = 3, title = js ''c'', completed = False, createdAt = 10, updatedAt = 10\<rparr>,
                    \<lparr>todo_id = 2, title = js ''b'', completed = False, createdAt = 4, updatedAt = 4\<rparr>]
   \<and> (1::int) \<notin> todo_id ` set
         [\<lparr>todo_id = 3, title = js ''c'', completed = False, createdAt = 10, updatedAt = 10\<rparr>,
          \<lparr>todo_id = 2, title = js ''b'', completed = False, createdAt = 4, updatedAt = 4\<rparr>]"
proof -
  let ?s = "\<lparr>rows = [\<lparr>todo_id = 1, title = js ''a'', completed = False, createdAt = 3, updatedAt = 3\<rparr>,
                     \<lparr>todo_id = 2, title = js ''b'', completed = False, createdAt = 4, updatedAt = 4\<rparr>],
             nextId = 3, roundTrips = 2\<rparr>"
  let ?s1 = "\<lparr>rows = [\<lparr>todo_id = 2, title = js ''b'', completed = False, createdAt = 4, updatedAt = 4\<rparr>],
            nextId = 3, roundTrips = 3\<rparr>"
  let ?s2 = "\<lparr>rows = [\<lparr>todo_id = 2, title = js ''b'', completed = False, createdAt = 4, updatedAt = 4\<rparr>,
                  \<lparr>todo_id = 3, title = js ''c'', completed = False, createdAt = 10, updatedAt = 10\<rparr>],
            nextId = 4, roundTrips = 4\<rparr>"
  let ?later = "[(\<lparr>now = 10, storeOk = True\<rparr>, Create (Json (JObject [(js ''title'', JString (js ''c''))])))]"
  let ?e' = "\<lparr>now = 11, storeOk = True\<rparr>"
  have h: "counterAhead ?s" "storeOk \<lparr>now = 9, storeOk = True\<rparr>" "parseInt (js ''1'') = Num 1"
    "(1::int) \<in> todo_id ` set (rows ?s)"
    by (simp_all add: counterAhead_def parseInt_1)
  note T = delete_is_final [where s = ?s and e = "\<lparr>now = 9, storeOk = True\<rparr>"
      and idStr = "js ''1''" and k = 1]
  from T h have d: "DELETE \<lparr>now = 9, storeOk = True\<rparr> (js ''1'') ?s
      = (\<lparr>status = 200, payload = JsonSuccess True\<rparr>, ?s1)"
    by (simp add: NextResponse_json_def roundTrip_def)
  have r: "run ?later ?s1 = ?s2"
    by (simp add: POST_def POST_try_def todo_create_def NextResponse_json_def Let_def js_def
        trim_def isStrWhiteSpaceChar_def roundTrip_def)
  from T h have "\<forall>later e'.
         (1::int) \<notin> todo_id ` set (rows (run later (snd (DELETE \<lparr>now = 9, storeOk = True\<rparr> (js ''1'') ?s))))
       \<and> PATCH e' (js ''1'') (Json (JObject [(js ''completed'', JBool True)]))
            (run later (snd (DELETE \<lparr>now = 9, storeOk = True\<rparr> (js ''1'') ?s)))
          = (NextResponse_json (JsonError ''Failed to update todo'') 500,
             roundTrip (run later (snd (DELETE \<lparr>now = 9, storeOk = True\<rparr> (js ''1'') ?s))))
       \<and> (\<forall>ts. payload (fst (GET e' (run later (snd (DELETE \<lparr>now = 9, storeOk = True\<rparr> (js ''1'') ?s)))))
               = JsonTodos ts \<longrightarrow> (1::int) \<notin> todo_id ` set ts)"
    by blast
  then have a: "PATCH ?e' (js ''1'') (Json (JObject [(js ''completed'', JBool True)])) (run ?later ?s1)
          = (NextResponse_json (JsonError ''Failed to update todo'') 500, roundTrip (run ?later ?s1))
       \<and> (\<forall>ts. payload (fst (GET ?e' (run ?later ?s1))) = JsonTodos ts \<longrightarrow> (1::int) \<notin> todo_id ` set ts)"
    unfolding d snd_conv by blast
  have g: "payload (fst (GET ?e' ?s2))
       = JsonTodos [\<lparr>todo_id = 3, title = js ''c'', completed = False, createdAt = 10, updatedAt = 10\<rparr>,
                    \<lparr>todo_id = 2, title = js ''b'', completed = False, createdAt = 4, updatedAt = 4\<rparr>]"
    by (simp add: GET_ok NextResponse_json_def orderBy_createdAt_def)
  from a g have n: "(1::int) \<notin> todo_id ` set
         [\<lparr>todo_id = 3, title = js ''c'', completed = False, createdAt = 10, updatedAt = 10\<rparr>,
          \<lparr>todo_id = 2, title = js ''b'', completed = False, createdAt = 4, updatedAt = 4\<rparr>]"
    unfolding r by blast
  from a have p: "PATCH ?e' (js ''1'') (Json (JObject [(js ''completed'', JBool True)])) ?s2
       = (\<lparr>status = 500, payload = JsonError ''Failed to update todo''\<rparr>,
          \<lparr>rows = [\<lparr>todo_id = 2, title = js ''b'', completed = False, createdAt = 4, updatedAt = 4\<rparr>,
                  \<lparr>todo_id = 3, title = js ''c'', completed = False, createdAt = 10, updatedAt = 10\<rparr>],
            nextId = 4, roundTrips = 5\<rparr>)"
    unfolding r by (simp add: NextResponse_json_def roundTrip_def)
  from h d r p g n show ?thesis by blast
qed

section \<open>Ids with trailing characters\<close>

text \<open>
  C10, as amended. SetCompleted and Delete answer 400 with \<open>Invalid todo ID\<close> exactly
  when \<open>parseInt\<close> of the id is NaN. An id that begins with a decimal digit and does
  not begin with \<open>0x\<close> or \<open>0X\<close> is never NaN: the store is asked for the Number
  value of its leading run of decimal digits, whatever follows them, and that value is
  the number the digits denote whenever a double holds it, as it does every number up
  to \<open>2 ^ 53\<close>. An id that begins with \<open>0x\<close> or \<open>0X\<close> is read in base sixteen
  from its third character on: with a hex digit there the store is asked for the Number
  value of the run of hex digits, with none the id is NaN and the answer is 400. Delete
  removes the rows of the id the store is asked for and SetCompleted updates them.
\<close>

theorem id_prefix_parsing:
  "(status (fst (DELETE e idStr s)) = 400 \<longleftrightarrow> isNaN (parseInt idStr))
   \<and> (fst (PATCH e idStr request s) = NextResponse_json (JsonError ''Invalid todo ID'') 400
        \<longleftrightarrow> isNaN (parseInt idStr))
   \<and> (idStr \<noteq> [] \<and> isDecimalDigit (hd idStr) \<and> \<not> hasHexPrefix idStr \<longrightarrow>
        parseInt idStr = toNumber (leadingIntegerPrefix idStr) \<and> \<not> isNaN (parseInt idStr))
   \<and> (idStr \<noteq> [] \<and> isDecimalDigit (hd idStr) \<and> \<not> hasHexPrefix idStr
        \<and> leadingIntegerPrefix idStr \<le> 2 ^ 53 \<longrightarrow>
        parseInt idStr = Num (leadingIntegerPrefix idStr)
      \<and> rows (snd (DELETE e idStr s))
          = (if storeOk e then filter (\<lambda>x. todo_id x \<noteq> leadingIntegerPrefix idStr) (rows s)
             else rows s)
      \<and> rows (snd (PATCH e idStr (Json (JObject [(js ''completed'', JBool c)])) s))
          = (if storeOk e
             then map (\<lambda>x. if todo_id x = leadingIntegerPrefix idStr
                            then x\<lparr>completed := c, updatedAt := now e\<rparr> else x) (rows s)
             else rows s))
   \<and> (hasHexPrefix idStr \<and> hexDigitsAfterPrefix idStr \<noteq> [] \<longrightarrow>
        parseInt idStr = toNumber (int (hexValue (hexDigitsAfterPrefix idStr)))
      \<and> \<not> isNaN (parseInt idStr))
   \<and> (hasHexPrefix idStr \<and> hexDigitsAfterPrefix idStr = [] \<longrightarrow>
        DELETE e idStr s = (NextResponse_json (JsonError ''Invalid todo ID'') 400, s)
      \<and> PATCH e idStr request s = (NextResponse_json (JsonError ''Invalid todo ID'') 400, s))
   \<and> (\<bar>n\<bar> \<le> 2 ^ 53 \<longrightarrow> toNumber n = Num n)
   \<and> (parseInt idStr = Num k \<longrightarrow>
        rows (snd (DELETE e idStr s))
          = (if storeOk e then filter (\<lambda>x. todo_id x \<noteq> k) (rows s) else rows s)
      \<and> rows (snd (PATCH e idStr (Json (JObject [(js ''completed'', JBool c)])) s))
          = (if storeOk e
             then map (\<lambda>x. if todo_id x = k then x\<lparr>completed := c, updatedAt := now e\<rparr> else x)
                   (rows s)
             else rows s))"
proof (intro conjI impI)
  show "status (fst (DELETE e idStr s)) = 400 \<longleftrightarrow> isNaN (parseInt idStr)"
    by (rule DELETE_400_iff)
  show "fst (PATCH e idStr request s) = NextResponse_json (JsonError ''Invalid todo ID'') 400
        \<longleftrightarrow> isNaN (parseInt idStr)"
    by (rule PATCH_invalid_id_iff)
next
  assume "idStr \<noteq> [] \<and> isDecimalDigit (hd idStr) \<and> \<not> hasHexPrefix idStr"
  then show p: "parseInt idStr = toNumber (leadingIntegerPrefix idStr)"
    by (simp add: parseInt_leading_digits)
  show "\<not> isNaN (parseInt idStr)"
    by (simp add: p isNaN_def toNumber_not_NaN)
next
  assume h: "idStr \<noteq> [] \<and> isDecimalDigit (hd idStr) \<and> \<not> hasHexPrefix idStr
        \<and> leadingIntegerPrefix idStr \<le> 2 ^ 53"
  then have "parseInt idStr = toNumber (leadingIntegerPrefix idStr)"
    by (simp add: parseInt_leading_digits)
  moreover have "0 \<le> leadingIntegerPrefix idStr"
    by (simp add: leadingIntegerPrefix_def)
  ultimately show p: "parseInt idStr = Num (leadingIntegerPrefix idStr)"
    using h by (simp add: toNumber_small)
  show "rows (snd (DELETE e idStr s))
          = (if storeOk e then filter (\<lambda>x. todo_id x \<noteq> leadingIntegerPrefix idStr) (rows s)
             else rows s)"
    by (rule rows_DELETE_Num [OF p])
  show "rows (snd (PATCH e idStr (Json (JObject [(js ''completed'', JBool c)])) s))
          = (if storeOk e
             then map (\<lambda>x. if todo_id x = leadingIntegerPrefix idStr
                            then x\<lparr>completed := c, updatedAt := now e\<rparr> else x) (rows s)
             else rows s)"
    by (rule rows_PATCH_Num [OF p])
next
  assume "hasHexPrefix idStr \<and> hexDigitsAfterPrefix idStr \<noteq> []"
  then show p: "parseInt idStr = toNumber (int (hexValue (hexDigitsAfterPrefix idStr)))"
    by (simp add: parseInt_hex_prefix)
  show "\<not> isNaN (parseInt idStr)"
    by (simp add: p isNaN_def toNumber_not_NaN)
next
  assume "hasHexPrefix idStr \<and> hexDigitsAfterPrefix idStr = []"
  then have n: "isNaN (parseInt idStr)"
    by (simp add: parseInt_hex_prefix isNaN_def)
  show "DELETE e idStr s = (NextResponse_json (JsonError ''Invalid todo ID'') 400, s)"
    by (rule DELETE_NaN [OF n])
  show "PATCH e idStr request s = (NextResponse_json (JsonError ''Invalid todo ID'') 400, s)"
    by (rule PATCH_NaN [OF n])
next
  assume "\<bar>n\<bar> \<le> 2 ^ 53"
  then show "toNumber n = Num n" by (rule toNumber_small)
next
  assume p: "parseInt idStr = Num k"
  show "rows (snd (DELETE e idStr s))
          = (if storeOk e then filter (\<lambda>x. todo_id x \<noteq> k) (rows s) else rows s)"
    by (rule rows_DELETE_Num [OF p])
  show "rows (snd (PATCH e idStr (Json (JObject [(js ''completed'', JBool c)])) s))
          = (if storeOk e
             then map (\<lambda>x. if todo_id x = k then x\<lparr>completed := c, updatedAt := now e\<rparr> else x)
                   (rows s)
             else rows s)"
    by (rule rows_PATCH_Num [OF p])
qed

theorem id_prefix_parsing_witness:
  "js ''5abc'' \<noteq> [] \<and> isDecimalDigit (hd (js ''5abc'')) \<and> \<not> hasHexPrefix (js ''5abc'')
   \<and> leadingIntegerPrefix (js ''5abc'') = 5 \<and> leadingIntegerPrefix (js ''5abc'') \<le> 2 ^ 53
   \<and> parseInt (js ''5abc'') = Num 5 \<and> \<not> isNaN (parseInt (js ''5abc''))
   \<and> status (fst (DELETE \<lparr>now = 9, storeOk = True\<rparr> (js ''5abc'')
        \<lparr>rows = [\<lparr>todo_id = 5, title = js ''a'', completed = False, createdAt = 3, updatedAt = 3\<rparr>,
                 \<lparr>todo_id = 6, title = js ''b'', completed = False, createdAt = 4, updatedAt = 4\<rparr>],
          nextId = 7, roundTrips = 0\<rparr>)) \<noteq> 400
   \<and> rows (snd (DELETE \<lparr>now = 9, storeOk = True\<rparr> (js ''5abc'')
        \<lparr>rows = [\<lparr>todo_id = 5, title = js ''a'', completed = False, createdAt = 3, updatedAt = 3\<rparr>,
                 \<lparr>todo_id = 6, title = js ''b'', completed = False, createdAt = 4, updatedAt = 4\<rparr>],
          nextId = 7, roundTrips = 0\<rparr>))
       = [\<lparr>todo_id = 6, title = js ''b'', completed = False, createdAt = 4, updatedAt = 4\<rparr>]
   \<and> js ''5.9'' \<noteq> [] \<and> isDecimalDigit (hd (js ''5.9'')) \<and> \<not> hasHexPrefix (js ''5.9'')
   \<and> leadingIntegerPrefix (js ''5.9'') \<le> 2 ^ 53
   \<and> rows (snd (PATCH \<lparr>now = 9, storeOk = True\<rparr> (js ''5.9'')
        (Json (JObject [(js ''completed'', JBool True)]))
        \<lparr>rows = [\<lparr>todo_id = 5, title = js ''a'', completed = False, createdAt = 3, updatedAt = 3\<rparr>,
                 \<lparr>todo_id = 6, title = js ''b'', completed = False, createdAt = 4, updatedAt = 4\<rparr>],
          nextId = 7, roundTrips = 0\<rparr>))
       = [\<lparr>todo_id = 5, title = js ''a'', completed = True, createdAt = 3, updatedAt = 9\<rparr>,
          \<lparr>todo_id = 6, title = js ''b'', completed = False, createdAt = 4, updatedAt = 4\<rparr>]
   \<and> hasHexPrefix (js ''0X1F'') \<and> hexDigitsAfterPrefix (js ''0X1F'') \<noteq> []
   \<and> \<bar>31::int\<bar> \<le> 2 ^ 53 \<and> parseInt (js ''0X1F'') = Num 31
   \<and> rows (snd (DELETE \<lparr>now = 9, storeOk = True\<rparr> (js ''0X1F'')
        \<lparr>rows = [\<lparr>todo_id = 31, title = js ''a'', completed = False, createdAt = 3, updatedAt = 3\<rparr>,
                 \<lparr>todo_id = 6, title = js ''b'', completed = False, createdAt = 4, updatedAt = 4\<rparr>],
          nextId = 32, roundTrips = 0\<rparr>))
       = [\<lparr>todo_id = 6, title = js ''b'', completed = False, createdAt = 4, updatedAt = 4\<rparr>]
   \<and> hasHexPrefix (js ''0Xg'') \<and> hexDigitsAfterPrefix (js ''0Xg'') = []
   \<and> DELETE \<lparr>now = 9, storeOk = True\<rparr> (js ''0Xg'')
        \<lparr>rows = [\<lparr>todo_id = 5, title = js ''a'', completed = False, createdAt = 3, updatedAt = 3\<rparr>],
          nextId = 7, roundTrips = 0\<rparr>
       = (NextResponse_json (JsonError ''Invalid todo ID'') 400,
          \<lparr>rows = [\<lparr>todo_id = 5, title = js ''a'', completed = False, createdAt = 3, updatedAt = 3\<rparr>],
            nextId = 7, roundTrips = 0\<rparr>)
   \<and> js ''9007199254740994'' \<noteq> [] \<and> isDecimalDigit (hd (js ''9007199254740994''))
   \<and> \<not> hasHexPrefix (js ''9007199254740994'')
   \<and> parseInt (js ''9007199254740994'') = Num 9007199254740994"
proof -
  let ?e = "\<lparr>now = 9, storeOk = True\<rparr>"
  let ?s = "\<lparr>rows = [\<lparr>todo_id = 5, title = js ''a'', completed = False, createdAt = 3, updatedAt = 3\<rparr>,
                 \<lparr>todo_id = 6, title = js ''b'', completed = False, createdAt = 4, updatedAt = 4\<rparr>],
          nextId = 7, roundTrips = 0\<rparr>"
  let ?s31 = "\<lparr>rows = [\<lparr>todo_id = 31, title = js ''a'', completed = False, createdAt = 3, updatedAt = 3\<rparr>,
                 \<lparr>todo_id = 6, title = js ''b'', completed = False, createdAt = 4, updatedAt = 4\<rparr>],
          nextId = 32, roundTrips = 0\<rparr>"
  let ?s5 = "\<lparr>rows = [\<lparr>todo_id = 5, title = js ''a'', completed = False, createdAt = 3, updatedAt = 3\<rparr>],
          nextId = 7, roundTrips = 0\<rparr>"
  let ?b = "Json (JObject [(js ''completed'', JBool True)])"
  have a: "parseInt (js ''5abc'') = Num 5 \<and> \<not> isNaN (parseInt (js ''5abc''))
     \<and> status (fst (DELETE ?e (js ''5abc'') ?s)) \<noteq> 400
     \<and> rows (snd (DELETE ?e (js ''5abc'') ?s))
         = [\<lparr>todo_id = 6, title = js ''b'', completed = False, createdAt = 4, updatedAt = 4\<rparr>]"
    using prefix_5abc
      id_prefix_parsing [where idStr = "js ''5abc''" and e = ?e and c = True and request = ?b
        and s = ?s and n = 5 and k = 5]
    by auto
  have b: "rows (snd (PATCH ?e (js ''5.9'') ?b ?s))
       = [\<lparr>todo_id = 5, title = js ''a'', completed = True, createdAt = 3, updatedAt = 9\<rparr>,
          \<lparr>todo_id = 6, title = js ''b'', completed = False, createdAt = 4, updatedAt = 4\<rparr>]"
    using prefix_5dot9
      id_prefix_parsing [where idStr = "js ''5.9''" and e = ?e and c = True and request = ?b
        and s = ?s and n = 5 and k = 5]
    by auto
  have c0: "parseInt (js ''0X1F'') = Num 31"
    using prefix_0X1F
      id_prefix_parsing [where idStr = "js ''0X1F''" and e = ?e and c = True and request = ?b
        and s = ?s31 and n = 31 and k = 31]
    by auto
  have c: "rows (snd (DELETE ?e (js ''0X1F'') ?s31))
       = [\<lparr>todo_id = 6, title = js ''b'', completed = False, createdAt = 4, updatedAt = 4\<rparr>]"
    using c0
      id_prefix_parsing [where idStr = "js ''0X1F''" and e = ?e and c = True and request = ?b
        and s = ?s31 and n = 31 and k = 31]
    by auto
  have d: "DELETE ?e (js ''0Xg'') ?s5 = (NextResponse_json (JsonError ''Invalid todo ID'') 400, ?s5)"
    using prefix_0Xg
      id_prefix_parsing [where idStr = "js ''0Xg''" and e = ?e and c = True and request = ?b
        and s = ?s5 and n = 5 and k = 5]
    by auto
  have f: "parseInt (js ''9007199254740994'') = Num 9007199254740994"
    using prefix_big_even toNumber_big
      id_prefix_parsing [where idStr = "js ''9007199254740994''" and e = ?e and c = True
        and request = ?b and s = ?s5 and n = 5 and k = 5]
    by auto
  from a b c0 c d f prefix_5abc prefix_5dot9 prefix_0X1F prefix_0Xg prefix_big_even
  show ?thesis by auto
qed

text \<open>
  C10 as stated covers every id that begins with a digit. An id that begins with
  \<open>0x\<close> is read in base sixteen: \<open>0x\<close> alone has no digit left and is rejected
  with 400, and \<open>0x1f\<close>, whose leading decimal prefix is 0, deletes the row 31. And
  a double does not hold \<open>2 ^ 53 + 1\<close>: for the id \<open>9007199254740993\<close> the store
  is asked for \<open>9007199254740992\<close>.
\<close>

theorem hex_prefixed_id_counterexample:
  "js ''0x'' \<noteq> [] \<and> isDecimalDigit (hd (js ''0x''))
   \<and> DELETE \<lparr>now = 9, storeOk = True\<rparr> (js ''0x'')
        \<lparr>rows = [\<lparr>todo_id = 31, title = js ''a'', completed = False, createdAt = 3, updatedAt = 3\<rparr>],
          nextId = 32, roundTrips = 0\<rparr>
      = (\<lparr>status = 400, payload = JsonError ''Invalid todo ID''\<rparr>,
         \<lparr>rows = [\<lparr>todo_id = 31, title = js ''a'', completed = False, createdAt = 3, updatedAt = 3\<rparr>],
          nextId = 32, roundTrips = 0\<rparr>)
   \<and> js ''0x1f'' \<noteq> [] \<and> isDecimalDigit (hd (js ''0x1f''))
   \<and> leadingIntegerPrefix (js ''0x1f'') = 0
   \<and> DELETE \<lparr>now = 9, storeOk = True\<rparr> (js ''0x1f'')
        \<lparr>rows = [\<lparr>todo_id = 31, title = js ''a'', completed = False, createdAt = 3, updatedAt = 3\<rparr>],
          nextId = 32, roundTrips = 0\<rparr>
      = (\<lparr>status = 200, payload = JsonSuccess True\<rparr>, \<lparr>rows = [], nextId = 32, roundTrips = 1\<rparr>)
   \<and> js ''9007199254740993'' \<noteq> [] \<and> isDecimalDigit (hd (js ''9007199254740993''))
   \<and> leadingIntegerPrefix (js ''9007199254740993'') = 9007199254740993
   \<and> parseInt (js ''9007199254740993'') = Num 9007199254740992"
proof -
  have a: "parseInt (js ''0x'') = NaN" "parseInt (js ''0x1f'') = Num 31"
    by (simp_all add: parseInt_def js_def isStrWhiteSpaceChar_def isRadixDigit_def digitValue_def
        toNumber_small)
  have b: "js ''0x'' \<noteq> []" "isDecimalDigit (hd (js ''0x''))" "js ''0x1f'' \<noteq> []"
    "isDecimalDigit (hd (js ''0x1f''))" "leadingIntegerPrefix (js ''0x1f'') = 0"
    by (simp_all add: js_def isDecimalDigit_def leadingIntegerPrefix_def decimalValue_def)
  from a b prefix_big parseInt_big show ?thesis
    by (simp add: DELETE_def DELETE_try_def todo_delete_def NextResponse_json_def roundTrip_def
        isNaN_def Let_def)
qed

section \<open>One client per process\<close>

text \<open>
  C8. In a fresh process the first evaluation of the module constructs the client, and
  every evaluation exports that same client, so that one client is constructed in all:
  in development for any number of reloads, through \<open>globalThis\<close>; in production,
  where the module is not reloaded, for its single evaluation.
\<close>

theorem prisma_is_singleton:
  "globalForPrisma_prisma p = None \<and> (NODE_ENV = Some ''production'' \<longrightarrow> n \<le> 1) \<longrightarrow>
     fst (evaluations NODE_ENV n p) = replicate n (constructed p)
   \<and> constructed (snd (evaluations NODE_ENV n p))
        = (if n = 0 then constructed p else Suc (constructed p))"
proof (intro impI)
  assume h: "globalForPrisma_prisma p = None \<and> (NODE_ENV = Some ''production'' \<longrightarrow> n \<le> 1)"
  show "fst (evaluations NODE_ENV n p) = replicate n (constructed p)
   \<and> constructed (snd (evaluations NODE_ENV n p))
        = (if n = 0 then constructed p else Suc (constructed p))"
  proof (cases n)
    case 0
    then show ?thesis by simp
  next
    case (Suc m)
    show ?thesis
    proof (cases "NODE_ENV = Some ''production''")
      case True
      with h Suc have "m = 0" by simp
      with h Suc True show ?thesis by (simp add: first_evaluation)
    next
      case False
      define p1 where "p1 = p\<lparr>constructed := Suc (constructed p),
                               globalForPrisma_prisma := Some (constructed p)\<rparr>"
      from h False have 1: "prisma_module NODE_ENV p = (constructed p, p1)"
        by (simp add: first_evaluation p1_def)
      have "globalForPrisma_prisma p1 = Some (constructed p)" by (simp add: p1_def)
      from evaluations_reuse_global [OF this False, of m]
      have 2: "evaluations NODE_ENV m p1 = (replicate m (constructed p), p1)" .
      from Suc 1 2 show ?thesis by (simp add: p1_def)
    qed
  qed
qed

theorem prisma_is_singleton_witness:
  "globalForPrisma_prisma \<lparr>globalForPrisma_prisma = None, constructed = 0\<rparr> = None
   \<and> Some ''development'' \<noteq> Some ''production'' \<and> (1::nat) \<le> 1
   \<and> fst (evaluations (Some ''development'') 3 \<lparr>globalForPrisma_prisma = None, constructed = 0\<rparr>)
       = [0, 0, 0]
   \<and> constructed (snd (evaluations (Some ''development'') 3
         \<lparr>globalForPrisma_prisma = None, constructed = 0\<rparr>)) = 1
   \<and> fst (evaluations (Some ''production'') 1 \<lparr>globalForPrisma_prisma = None, constructed = 0\<rparr>)
       = [0]
   \<and> constructed (snd (evaluations (Some ''production'') 1
         \<lparr>globalForPrisma_prisma = None, constructed = 0\<rparr>)) = 1"
  using prisma_is_singleton [where p = "\<lparr>globalForPrisma_prisma = None, constructed = 0\<rparr>"
      and NODE_ENV = "Some ''development''" and n = 3]
    prisma_is_singleton [where p = "\<lparr>globalForPrisma_prisma = None, constructed = 0\<rparr>"
      and NODE_ENV = "Some ''production''" and n = 1]
  by (simp add: eval_nat_numeral)

text \<open>
  The reuse through \<open>globalThis\<close> is switched off in production: a second evaluation
  there would construct a second client.
\<close>

lemma production_reevaluation_constructs_again:
  "globalForPrisma_prisma p = None \<Longrightarrow>
   fst (evaluations (Some ''production'') (Suc (Suc 0)) p) = [constructed p, Suc (constructed p)]"
  by (simp add: prisma_module_def new_PrismaClient_def)

end
